theory Spec2Isabelle
  imports Complex_Main
begin

section \<open>Anomaly detector of the operations dashboard (src/src/alerts.py)\<close>

text \<open>
  The module computes rolling statistics over daily metric series, derives a Z-score and a
  percentage change for the latest observation, classifies it into a severity and renders
  a message. The embedding follows the Python text function by function.

  Numbers. Python floats are modelled as real numbers extended with the three special
  values of IEEE arithmetic that the control flow of the module can observe: not-a-number
  and the two infinities. On finite operands the arithmetic is the one of the real
  numbers: rounding of binary floating point, overflow of a finite result to an infinity
  and the sign of zero are not modelled, and the properties are stated in terms of the
  operations \<open>fsub\<close>, \<open>fdiv\<close> and \<open>fmul\<close> where they would depend on them. Query results
  hold finite numbers.
\<close>

subsection \<open>Floats\<close>

datatype fval = Fin real | PInf | NInf | NaN

fun isnan :: "fval \<Rightarrow> bool" where
  "isnan NaN = True"
| "isnan _ = False"

text \<open>\<open>x == 0\<close>\<close>

fun is_zero :: "fval \<Rightarrow> bool" where
  "is_zero (Fin a) = (a = 0)"
| "is_zero _ = False"

text \<open>Truth value of a float in a condition (\<open>if expected\<close>): false only for zero, so
  not-a-number is true.\<close>

definition truthy :: "fval \<Rightarrow> bool" where
  "truthy x = (\<not> is_zero x)"

fun fsub :: "fval \<Rightarrow> fval \<Rightarrow> fval" where
  "fsub (Fin a) (Fin b) = Fin (a - b)"
| "fsub (Fin a) PInf = NInf"
| "fsub (Fin a) NInf = PInf"
| "fsub PInf (Fin b) = PInf"
| "fsub PInf NInf = PInf"
| "fsub NInf (Fin b) = NInf"
| "fsub NInf PInf = NInf"
| "fsub _ _ = NaN"

fun fmul :: "fval \<Rightarrow> fval \<Rightarrow> fval" where
  "fmul (Fin a) (Fin b) = Fin (a * b)"
| "fmul (Fin a) PInf = (if a = 0 then NaN else if 0 < a then PInf else NInf)"
| "fmul (Fin a) NInf = (if a = 0 then NaN else if 0 < a then NInf else PInf)"
| "fmul PInf (Fin b) = (if b = 0 then NaN else if 0 < b then PInf else NInf)"
| "fmul NInf (Fin b) = (if b = 0 then NaN else if 0 < b then NInf else PInf)"
| "fmul PInf PInf = PInf"
| "fmul PInf NInf = NInf"
| "fmul NInf PInf = NInf"
| "fmul NInf NInf = PInf"
| "fmul _ _ = NaN"

text \<open>Division of numpy floats does not raise: a zero divisor gives an infinity, or
  not-a-number for \<open>0 / 0\<close>.\<close>

fun fdiv :: "fval \<Rightarrow> fval \<Rightarrow> fval" where
  "fdiv (Fin a) (Fin b) =
     (if b = 0 then (if a = 0 then NaN else if 0 < a then PInf else NInf)
      else Fin (a / b))"
| "fdiv (Fin a) PInf = Fin 0"
| "fdiv (Fin a) NInf = Fin 0"
| "fdiv PInf (Fin b) = (if b < 0 then NInf else PInf)"
| "fdiv NInf (Fin b) = (if b < 0 then PInf else NInf)"
| "fdiv _ _ = NaN"

fun fabs :: "fval \<Rightarrow> fval" where
  "fabs (Fin a) = Fin \<bar>a\<bar>"
| "fabs PInf = PInf"
| "fabs NInf = PInf"
| "fabs NaN = NaN"

text \<open>\<open>x >= t\<close> and \<open>x < t\<close> against a finite number; both are false for not-a-number.\<close>

fun fge :: "fval \<Rightarrow> real \<Rightarrow> bool" where
  "fge (Fin a) t = (t \<le> a)"
| "fge PInf t = True"
| "fge NInf t = False"
| "fge NaN t = False"

fun flt :: "fval \<Rightarrow> real \<Rightarrow> bool" where
  "flt (Fin a) t = (a < t)"
| "flt PInf t = False"
| "flt NInf t = True"
| "flt NaN t = False"

subsection \<open>Data model\<close>

datatype AlertSeverity = NORMAL | WARNING | CRITICAL

text \<open>The \<open>value\<close> of each enum member.\<close>

fun severity_value :: "AlertSeverity \<Rightarrow> string" where
  "severity_value NORMAL = ''normal''"
| "severity_value WARNING = ''warning''"
| "severity_value CRITICAL = ''critical''"

record Alert =
  metric :: string
  dimension :: string
  current_value :: fval
  expected_value :: fval
  z_score :: fval
  severity :: AlertSeverity
  change_pct :: fval
  message :: string

datatype error = DataAccessError | ValueError | IndexError | KeyError

text \<open>
  The database is an external collaborator. The detector sends it four kinds of query; the
  record holds the answer to each, or the exception that \<open>execute_query\<close> re-raises.
  A series row is the day (as the number \<open>pd.to_datetime\<close> parses it to) and the sum for
  that day.
\<close>

type_synonym series = "(int \<times> real) list"

record Database =
  daily_tpv :: "error + series"
  daily_txns :: "error + series"
  unique_products :: "error + string list"
  product_tpv :: "string \<Rightarrow> error + series"

record AnomalyDetector =
  db :: Database
  window :: int
  warning_threshold :: real
  critical_threshold :: real

subsection \<open>Initialisation\<close>

text \<open>
  \<open>__init__\<close>, lines 75 to 99. Without a database the constructor builds one and loads
  the CSV file into it; \<open>loaded\<close> is the outcome of that step. The three settings are stored
  as given.
\<close>

definition init :: "error + Database \<Rightarrow> Database option \<Rightarrow> int \<Rightarrow> real \<Rightarrow> real
    \<Rightarrow> error + AnomalyDetector" where
  "init loaded db_arg w warn crit =
     (case db_arg of
        None \<Rightarrow>
          (case loaded of
             Inl e \<Rightarrow> Inl e
           | Inr d \<Rightarrow> Inr \<lparr>db = d, window = w, warning_threshold = warn,
                           critical_threshold = crit\<rparr>)
      | Some d \<Rightarrow> Inr \<lparr>db = d, window = w, warning_threshold = warn,
                        critical_threshold = crit\<rparr>)"

text \<open>The defaults of the constructor's signature.\<close>

definition default_detector :: "Database \<Rightarrow> AnomalyDetector" where
  "default_detector d =
     \<lparr>db = d, window = 30, warning_threshold = 2, critical_threshold = 3\<rparr>"

subsection \<open>Classification\<close>

text \<open>\<open>_calculate_z_score\<close>, lines 101 to 120.\<close>

definition calculate_z_score :: "fval \<Rightarrow> fval \<Rightarrow> fval \<Rightarrow> fval" where
  "calculate_z_score current mean std =
     (if is_zero std \<or> isnan std then Fin 0 else fdiv (fsub current mean) std)"

text \<open>\<open>_get_severity\<close>, lines 122 to 139.\<close>

definition get_severity :: "AnomalyDetector \<Rightarrow> fval \<Rightarrow> AlertSeverity" where
  "get_severity self z =
     (let abs_z = fabs z in
      if fge abs_z (critical_threshold self) then CRITICAL
      else if fge abs_z (warning_threshold self) then WARNING
      else NORMAL)"

text \<open>The expression of lines 211, 264 and 308.\<close>

definition calc_change_pct :: "fval \<Rightarrow> fval \<Rightarrow> fval" where
  "calc_change_pct current expected =
     (if truthy expected then fmul (fdiv (fsub current expected) expected) (Fin 100)
      else Fin 0)"

subsection \<open>Rolling statistics\<close>

text \<open>
  \<open>Series.rolling(window=w)\<close> of pandas, called with the window only: the number of
  observations required for a value (\<open>min_periods\<close>) is then the window size. At position
  \<open>i\<close> the window holds the last \<open>w\<close> observations up to and including \<open>i\<close>, fewer near the
  start. The mean needs at least one observation, the standard deviation (one delta degree
  of freedom) at least two. A negative window is refused with a ValueError.
\<close>

definition window_at :: "nat \<Rightarrow> real list \<Rightarrow> nat \<Rightarrow> real list" where
  "window_at w xs i = drop (Suc i - w) (take (Suc i) xs)"

definition mean_of :: "nat \<Rightarrow> real list \<Rightarrow> fval" where
  "mean_of min_periods obs =
     (if min_periods \<le> length obs \<and> 0 < length obs
      then Fin (sum_list obs / real (length obs)) else NaN)"

definition std_of :: "nat \<Rightarrow> real list \<Rightarrow> fval" where
  "std_of min_periods obs =
     (if min_periods \<le> length obs \<and> 1 < length obs
      then (let m = sum_list obs / real (length obs) in
            Fin (sqrt (sum_list (map (\<lambda>x. (x - m)\<^sup>2) obs) / real (length obs - 1))))
      else NaN)"

definition rolling_mean :: "nat \<Rightarrow> real list \<Rightarrow> fval list" where
  "rolling_mean w xs = map (\<lambda>i. mean_of w (window_at w xs i)) [0..<length xs]"

definition rolling_std :: "nat \<Rightarrow> real list \<Rightarrow> fval list" where
  "rolling_std w xs = map (\<lambda>i. std_of w (window_at w xs i)) [0..<length xs]"

subsection \<open>Messages\<close>

text \<open>\<open>str.upper\<close> on ASCII text: the letters a to z are mapped, every other character
  is left as it is (cased letters outside ASCII are not modelled).\<close>

definition upper_char :: "char \<Rightarrow> char" where
  "upper_char c =
     (case map_of (zip ''abcdefghijklmnopqrstuvwxyz'' ''ABCDEFGHIJKLMNOPQRSTUVWXYZ'') c of
        None \<Rightarrow> c
      | Some u \<Rightarrow> u)"

definition upper :: "string \<Rightarrow> string" where
  "upper s = map upper_char s"

text \<open>Fixed-point formatting (\<open>:.1f\<close>, \<open>:.2f\<close>, \<open>:,.2f\<close>, \<open>:,.0f\<close>): the number is rounded
  to the requested decimals, halves to even; the comma option groups the integer digits
  in threes.\<close>

definition round_half_even :: "real \<Rightarrow> int" where
  "round_half_even x =
     (let f = \<lfloor>x\<rfloor>; d = x - of_int f in
      if d < 1 / 2 then f
      else if 1 / 2 < d then f + 1
      else if even f then f else f + 1)"

definition digit_char :: "nat \<Rightarrow> char" where
  "digit_char n = ''0123456789'' ! (n mod 10)"

fun digits :: "nat \<Rightarrow> string" where
  "digits n = (if n < 10 then [digit_char n] else digits (n div 10) @ [digit_char n])"

fun group3 :: "string \<Rightarrow> string" where
  "group3 s =
     (if length s \<le> 3 then s
      else group3 (take (length s - 3) s) @ '','' @ drop (length s - 3) s)"

definition zero_pad :: "nat \<Rightarrow> string \<Rightarrow> string" where
  "zero_pad d s = replicate (d - length s) (CHR ''0'') @ s"

definition fixed_point :: "bool \<Rightarrow> nat \<Rightarrow> bool \<Rightarrow> nat \<Rightarrow> string" where
  "fixed_point comma d negative n =
     (if negative then ''-'' else [])
     @ (if comma then group3 (digits (n div 10 ^ d)) else digits (n div 10 ^ d))
     @ (if d = 0 then [] else ''.'' @ zero_pad d (digits (n mod 10 ^ d)))"

fun format_f :: "bool \<Rightarrow> nat \<Rightarrow> fval \<Rightarrow> string" where
  "format_f comma d (Fin x) =
     fixed_point comma d (x < 0) (nat (round_half_even (\<bar>x\<bar> * 10 ^ d)))"
| "format_f comma d PInf = ''inf''"
| "format_f comma d NInf = ''-inf''"
| "format_f comma d NaN = ''nan''"

text \<open>\<open>_format_message\<close>, lines 141 to 176.\<close>

definition format_message :: "string \<Rightarrow> string \<Rightarrow> fval \<Rightarrow> fval \<Rightarrow> fval \<Rightarrow> fval \<Rightarrow> string"
  where
  "format_message metric_arg dimension_arg z chg current expected =
     (let direction = (if flt z 0 then ''dropped'' else ''spiked'');
          metric_label = upper metric_arg;
          dim_text = (if dimension_arg = ''total'' then ''Total '' @ metric_label
                      else metric_label @ '' for '' @ upper dimension_arg)
      in dim_text @ '' '' @ direction @ '' '' @ format_f False 1 (fabs chg) @ ''% ''
         @ ''(Z-score: '' @ format_f False 2 z @ ''). ''
         @ ''Current: R$ '' @ format_f True 2 current
         @ '', Expected: R$ '' @ format_f True 2 expected)"

text \<open>The message that \<open>check_transactions\<close> builds itself, lines 310 to 314.\<close>

definition transactions_message :: "fval \<Rightarrow> fval \<Rightarrow> fval \<Rightarrow> fval \<Rightarrow> string" where
  "transactions_message z chg current expected =
     ''Transaction count '' @ (if flt z 0 then ''dropped'' else ''spiked'') @ '' ''
       @ format_f False 1 (fabs chg) @ ''% ''
       @ ''(Z-score: '' @ format_f False 2 z @ ''). ''
       @ ''Current: '' @ format_f True 0 current
       @ '', Expected: '' @ format_f True 0 expected"

subsection \<open>Checks\<close>

text \<open>
  The three checks share the text of lines 193 to 211 (249 to 264, 293 to 308) up to the
  name of the value column: order the rows by day, compute both rolling columns, read the
  latest row, read the statistics of the row before it when there is one and of the latest
  row otherwise, then classify. \<open>evaluate\<close> is that block; it returns the values the alert
  is built from. Days are distinct in a result grouped by day, so the order of the sort
  is determined.
\<close>

record evaluation =
  ev_current :: fval
  ev_expected :: fval
  ev_z_score :: fval
  ev_severity :: AlertSeverity
  ev_change_pct :: fval

definition evaluate :: "AnomalyDetector \<Rightarrow> series \<Rightarrow> error + evaluation" where
  "evaluate self rows =
     (let xs = map snd (sort_key fst rows) in
      if window self < 0 then Inl ValueError
      else
        let rm = rolling_mean (nat (window self)) xs;
            rs = rolling_std (nat (window self)) xs;
            n = length xs
        in if n = 0 then Inl IndexError
           else
             let current = Fin (xs ! (n - 1));
                 prev_mean = (if 1 < n then rm ! (n - 2) else rm ! (n - 1));
                 prev_std = (if 1 < n then rs ! (n - 2) else rs ! (n - 1));
                 expected = prev_mean;
                 z = calculate_z_score current expected prev_std;
                 sev = get_severity self z;
                 chg = calc_change_pct current expected
             in Inr \<lparr>ev_current = current, ev_expected = expected, ev_z_score = z,
                     ev_severity = sev, ev_change_pct = chg\<rparr>)"

text \<open>\<open>check_total_tpv\<close>, lines 178 to 222.\<close>

definition check_total_tpv :: "AnomalyDetector \<Rightarrow> error + Alert" where
  "check_total_tpv self =
     (case daily_tpv (db self) of
        Inl e \<Rightarrow> Inl e
      | Inr rows \<Rightarrow>
          (case evaluate self rows of
             Inl e \<Rightarrow> Inl e
           | Inr ev \<Rightarrow>
               Inr \<lparr>metric = ''tpv'', dimension = ''total'',
                    current_value = ev_current ev, expected_value = ev_expected ev,
                    z_score = ev_z_score ev, severity = ev_severity ev,
                    change_pct = ev_change_pct ev,
                    message = format_message ''tpv'' ''total'' (ev_z_score ev)
                      (ev_change_pct ev) (ev_current ev) (ev_expected ev)\<rparr>))"

text \<open>The body of the loop of \<open>check_tpv_by_product\<close>, lines 237 to 275.\<close>

definition check_product :: "AnomalyDetector \<Rightarrow> string \<Rightarrow> error + Alert" where
  "check_product self product =
     (case product_tpv (db self) product of
        Inl e \<Rightarrow> Inl e
      | Inr rows \<Rightarrow>
          (case evaluate self rows of
             Inl e \<Rightarrow> Inl e
           | Inr ev \<Rightarrow>
               Inr \<lparr>metric = ''tpv'', dimension = product,
                    current_value = ev_current ev, expected_value = ev_expected ev,
                    z_score = ev_z_score ev, severity = ev_severity ev,
                    change_pct = ev_change_pct ev,
                    message = format_message ''tpv'' product (ev_z_score ev)
                      (ev_change_pct ev) (ev_current ev) (ev_expected ev)\<rparr>))"

text \<open>The loop: one alert appended per product, in the order of the list; the first
  exception ends it.\<close>

fun check_products :: "AnomalyDetector \<Rightarrow> string list \<Rightarrow> error + Alert list" where
  "check_products self [] = Inr []"
| "check_products self (p # ps) =
     (case check_product self p of
        Inl e \<Rightarrow> Inl e
      | Inr a \<Rightarrow>
          (case check_products self ps of
             Inl e \<Rightarrow> Inl e
           | Inr as \<Rightarrow> Inr (a # as)))"

text \<open>\<open>check_tpv_by_product\<close>, lines 224 to 277.\<close>

definition check_tpv_by_product :: "AnomalyDetector \<Rightarrow> error + Alert list" where
  "check_tpv_by_product self =
     (case unique_products (db self) of
        Inl e \<Rightarrow> Inl e
      | Inr products \<Rightarrow> check_products self products)"

text \<open>\<open>check_transactions\<close>, lines 279 to 325.\<close>

definition check_transactions :: "AnomalyDetector \<Rightarrow> error + Alert" where
  "check_transactions self =
     (case daily_txns (db self) of
        Inl e \<Rightarrow> Inl e
      | Inr rows \<Rightarrow>
          (case evaluate self rows of
             Inl e \<Rightarrow> Inl e
           | Inr ev \<Rightarrow>
               Inr \<lparr>metric = ''transactions'', dimension = ''total'',
                    current_value = ev_current ev, expected_value = ev_expected ev,
                    z_score = ev_z_score ev, severity = ev_severity ev,
                    change_pct = ev_change_pct ev,
                    message = transactions_message (ev_z_score ev) (ev_change_pct ev)
                      (ev_current ev) (ev_expected ev)\<rparr>))"

subsection \<open>Orchestration\<close>

record summary =
  total_alerts :: nat
  critical :: nat
  warning :: nat
  normal :: nat

record results =
  total_tpv :: Alert
  transactions :: Alert
  by_product :: "Alert list"
  summary :: summary

text \<open>One turn of the counting loop, lines 350 to 356.\<close>

definition count_alert :: "summary \<Rightarrow> Alert \<Rightarrow> summary" where
  "count_alert s a =
     (let s1 = s\<lparr>total_alerts := total_alerts s + 1\<rparr> in
      if severity a = CRITICAL then s1\<lparr>critical := critical s1 + 1\<rparr>
      else if severity a = WARNING then s1\<lparr>warning := warning s1 + 1\<rparr>
      else s1\<lparr>normal := normal s1 + 1\<rparr>)"

definition all_alerts :: "results \<Rightarrow> Alert list" where
  "all_alerts r = [total_tpv r, transactions r] @ by_product r"

text \<open>\<open>run_all_checks\<close>, lines 327 to 358. The three checks run in the order of the
  dictionary literal; an exception in one of them leaves the function.\<close>

definition run_all_checks :: "AnomalyDetector \<Rightarrow> error + results" where
  "run_all_checks self =
     (case check_total_tpv self of
        Inl e \<Rightarrow> Inl e
      | Inr t \<Rightarrow>
          (case check_transactions self of
             Inl e \<Rightarrow> Inl e
           | Inr x \<Rightarrow>
               (case check_tpv_by_product self of
                  Inl e \<Rightarrow> Inl e
                | Inr ps \<Rightarrow>
                    let r = \<lparr>total_tpv = t, transactions = x, by_product = ps,
                             summary = \<lparr>total_alerts = 0, critical = 0, warning = 0,
                                        normal = 0\<rparr>\<rparr>
                    in Inr (r\<lparr>summary := foldl count_alert (summary r) (all_alerts r)\<rparr>))))"

fun get_icon :: "AlertSeverity \<Rightarrow> string" where
  "get_icon CRITICAL = ''[!!!]''"
| "get_icon WARNING = ''[!]''"
| "get_icon NORMAL = ''[OK]''"

fun get_color :: "AlertSeverity \<Rightarrow> string" where
  "get_color CRITICAL = ''red''"
| "get_color WARNING = ''orange''"
| "get_color NORMAL = ''green''"

record display_alert =
  d_metric :: string
  d_dimension :: string
  d_severity :: string
  d_change_pct :: fval
  d_z_score :: fval
  d_message :: string
  d_icon :: string
  d_color :: string

definition to_display :: "Alert \<Rightarrow> display_alert" where
  "to_display a =
     \<lparr>d_metric = metric a, d_dimension = dimension a,
      d_severity = severity_value (severity a), d_change_pct = change_pct a,
      d_z_score = z_score a, d_message = message a, d_icon = get_icon (severity a),
      d_color = get_color (severity a)\<rparr>"

text \<open>The dictionary \<open>severity_order\<close> of line 384, as an association list.\<close>

definition severity_order :: "(string \<times> nat) list" where
  "severity_order = [(''critical'', 0), (''warning'', 1), (''normal'', 2)]"

text \<open>The sort key of line 385; a severity string that is not a key of the dictionary
  raises a KeyError.\<close>

definition severity_rank :: "display_alert \<Rightarrow> error + nat" where
  "severity_rank x =
     (case map_of severity_order (d_severity x) of None \<Rightarrow> Inl KeyError | Some k \<Rightarrow> Inr k)"

text \<open>\<open>list.sort(key=...)\<close>: the keys are computed first, one per element, then the list
  is sorted by them; the sort is stable.\<close>

fun sort_keys :: "display_alert list \<Rightarrow> error + (nat \<times> display_alert) list" where
  "sort_keys [] = Inr []"
| "sort_keys (x # xs) =
     (case severity_rank x of
        Inl e \<Rightarrow> Inl e
      | Inr k \<Rightarrow>
          (case sort_keys xs of
             Inl e \<Rightarrow> Inl e
           | Inr ks \<Rightarrow> Inr ((k, x) # ks)))"

text \<open>\<open>get_alerts_for_display\<close>, lines 360 to 387.\<close>

definition get_alerts_for_display :: "AnomalyDetector \<Rightarrow> error + display_alert list" where
  "get_alerts_for_display self =
     (case run_all_checks self of
        Inl e \<Rightarrow> Inl e
      | Inr r \<Rightarrow>
          (case sort_keys (map to_display (all_alerts r)) of
             Inl e \<Rightarrow> Inl e
           | Inr ks \<Rightarrow> Inr (map snd (sort_key fst ks))))"

subsection \<open>Notions used to state the properties\<close>

text \<open>The order of the severity tiers: normal below warning below critical.\<close>

fun tier :: "AlertSeverity \<Rightarrow> nat" where
  "tier NORMAL = 0"
| "tier WARNING = 1"
| "tier CRITICAL = 2"

text \<open>
  The growing window as the specification words it, for comparison with \<open>rolling_mean\<close>
  and \<open>rolling_std\<close>: the same windows, with a value as soon as one observation (two
  for the deviation) is available.
\<close>

definition growing_mean :: "nat \<Rightarrow> real list \<Rightarrow> fval list" where
  "growing_mean w xs = map (\<lambda>i. mean_of 1 (window_at w xs i)) [0..<length xs]"

definition growing_std :: "nat \<Rightarrow> real list \<Rightarrow> fval list" where
  "growing_std w xs = map (\<lambda>i. std_of 1 (window_at w xs i)) [0..<length xs]"

text \<open>Example data sources: three days of history with two products; the same with a
  failing query for the second product; the same with a failing query for the first
  product and no row for the second; an empty table; a single day.\<close>

definition example_db :: Database where
  "example_db =
     \<lparr>daily_tpv = Inr [(1, 100), (2, 200), (3, 300)],
      daily_txns = Inr [(1, 10), (2, 20), (3, 30)],
      unique_products = Inr [''pix'', ''pos''],
      product_tpv = (\<lambda>p. if p = ''pix'' then Inr [(1, 60), (2, 120), (3, 180)]
                         else if p = ''pos'' then Inr [(1, 40), (2, 80), (3, 120)]
                         else Inr [])\<rparr>"

definition failing_db :: Database where
  "failing_db =
     example_db\<lparr>product_tpv := (\<lambda>p. if p = ''pos'' then Inl DataAccessError
                                      else product_tpv example_db p)\<rparr>"

definition two_failures_db :: Database where
  "two_failures_db =
     example_db\<lparr>product_tpv := (\<lambda>p. if p = ''pix'' then Inl DataAccessError
                                           else Inr [])\<rparr>"

definition empty_db :: Database where
  "empty_db =
     \<lparr>daily_tpv = Inr [], daily_txns = Inr [], unique_products = Inr [],
      product_tpv = (\<lambda>p. Inr [])\<rparr>"

definition single_db :: Database where
  "single_db =
     \<lparr>daily_tpv = Inr [(1, 500)],
      daily_txns = Inr [(1, 7)],
      unique_products = Inr [''pix''],
      product_tpv = (\<lambda>p. if p = ''pix'' then Inr [(1, 500)] else Inr [])\<rparr>"

text \<open>Detectors with a window as long as the example series, the second of them with a
  warning threshold of zero, and a detector with a window of one day over the single-day
  source.\<close>

definition window3_detector :: AnomalyDetector where
  "window3_detector =
     \<lparr>db = example_db, window = 3, warning_threshold = 2, critical_threshold = 3\<rparr>"

definition zero_warning_detector :: AnomalyDetector where
  "zero_warning_detector =
     \<lparr>db = example_db, window = 3, warning_threshold = 0, critical_threshold = 3\<rparr>"

definition window1_detector :: AnomalyDetector where
  "window1_detector =
     \<lparr>db = single_db, window = 1, warning_threshold = 2, critical_threshold = 3\<rparr>"

text \<open>Four days of history under a window of three days: the latest day of the product
  pix lies three standard deviations above its mean, the transaction count 2.2; the
  product pos drops by less than one.\<close>

definition rich_db :: Database where
  "rich_db =
     \<lparr>daily_tpv = Inr [(1, 0), (2, 6), (3, 12), (4, 13)],
      daily_txns = Inr [(1, 0), (2, 30), (3, 60), (4, 96)],
      unique_products = Inr [''pix'', ''pos''],
      product_tpv = (\<lambda>p. if p = ''pix'' then Inr [(1, 0), (2, 3), (3, 6), (4, 12)]
                         else if p = ''pos'' then Inr [(1, 0), (2, 3), (3, 6), (4, 1)]
                         else Inr [])\<rparr>"

definition rich_detector :: AnomalyDetector where
  "rich_detector =
     \<lparr>db = rich_db, window = 3, warning_threshold = 2, critical_threshold = 3\<rparr>"

section \<open>Properties\<close>

subsection \<open>Classification\<close>

text \<open>
  C2. For every real Z-score and every pair of thresholds the severity is CRITICAL when
  the magnitude of the Z-score reaches the critical threshold, otherwise WARNING when it
  reaches the warning threshold, otherwise NORMAL. With the warning threshold not above
  the critical one, a larger magnitude never gives a lower tier.
\<close>

theorem severity_by_thresholds_monotone:
  "get_severity self (Fin z) =
     (if critical_threshold self \<le> \<bar>z\<bar> then CRITICAL
      else if warning_threshold self \<le> \<bar>z\<bar> then WARNING else NORMAL)
   \<and> (warning_threshold self \<le> critical_threshold self \<longrightarrow> \<bar>z1\<bar> \<le> \<bar>z2\<bar> \<longrightarrow>
        tier (get_severity self (Fin z1)) \<le> tier (get_severity self (Fin z2)))"
  by (simp add: get_severity_def)

theorem severity_by_thresholds_monotone_witness:
  "get_severity (default_detector example_db) (Fin (-5 / 2)) = WARNING
   \<and> warning_threshold (default_detector example_db)
       \<le> critical_threshold (default_detector example_db)
   \<and> \<bar>1 :: real\<bar> \<le> \<bar>- 7 / 2\<bar>
   \<and> tier (get_severity (default_detector example_db) (Fin 1))
       \<le> tier (get_severity (default_detector example_db) (Fin (- 7 / 2)))"
  using severity_by_thresholds_monotone
    [of "default_detector example_db" "-5 / 2" 1 "- 7 / 2"]
  by (simp add: default_detector_def)

text \<open>
  C3. The Z-score is 0 when the standard deviation is zero or not-a-number; otherwise it is
  the quotient of the difference of current and expected value by the standard deviation,
  a divisor that is then not zero. The percentage change is 0 when the expected value is
  zero; otherwise it is the quotient of the difference by the expected value, a divisor
  that is then not zero, times 100. So neither function divides by zero.
\<close>

theorem z_score_and_change_pct_guarded:
  "calculate_z_score current mean (Fin 0) = Fin 0
   \<and> calculate_z_score current mean NaN = Fin 0
   \<and> (std \<noteq> Fin 0 \<and> std \<noteq> NaN \<longrightarrow>
        calculate_z_score current mean std = fdiv (fsub current mean) std
        \<and> \<not> is_zero std)
   \<and> calc_change_pct current (Fin 0) = Fin 0
   \<and> (expected \<noteq> Fin 0 \<longrightarrow>
        calc_change_pct current expected
          = fmul (fdiv (fsub current expected) expected) (Fin 100)
        \<and> \<not> is_zero expected)"
proof -
  have z: "std \<noteq> Fin 0 \<and> std \<noteq> NaN \<longrightarrow>
        calculate_z_score current mean std = fdiv (fsub current mean) std
        \<and> \<not> is_zero std"
    by (cases std) (simp_all add: calculate_z_score_def)
  have c: "expected \<noteq> Fin 0 \<longrightarrow>
        calc_change_pct current expected
          = fmul (fdiv (fsub current expected) expected) (Fin 100)
        \<and> \<not> is_zero expected"
    by (cases expected) (simp_all add: calc_change_pct_def truthy_def)
  have g: "calculate_z_score current mean (Fin 0) = Fin 0"
    "calculate_z_score current mean NaN = Fin 0"
    "calc_change_pct current (Fin 0) = Fin 0"
    by (simp_all add: calculate_z_score_def calc_change_pct_def truthy_def)
  from g z c show ?thesis by (intro conjI)
qed

theorem z_score_and_change_pct_guarded_witness:
  "calculate_z_score (Fin 400) (Fin 100) (Fin 0) = Fin 0
   \<and> calculate_z_score (Fin 400) (Fin 100) NaN = Fin 0
   \<and> Fin 2 \<noteq> Fin 0 \<and> Fin 2 \<noteq> NaN
   \<and> calculate_z_score (Fin 400) (Fin 100) (Fin 2) = Fin 150
   \<and> calc_change_pct (Fin 400) (Fin 0) = Fin 0
   \<and> Fin 100 \<noteq> Fin 0
   \<and> calc_change_pct (Fin 400) (Fin 100) = Fin 300"
  using z_score_and_change_pct_guarded [of "Fin 400" "Fin 100" "Fin 2" "Fin 100"]
  by simp

subsection \<open>Initialisation\<close>

text \<open>
  C5, as the code has it. The constructor does not compare the thresholds: given a
  database it succeeds for every window and every pair of thresholds and stores them
  unchanged; without one, its outcome is that of loading the default database.
\<close>

theorem init_without_validation:
  "init loaded (Some d) w warn crit =
     Inr \<lparr>db = d, window = w, warning_threshold = warn, critical_threshold = crit\<rparr>
   \<and> init (Inr d) None w warn crit =
     Inr \<lparr>db = d, window = w, warning_threshold = warn, critical_threshold = crit\<rparr>
   \<and> init (Inl e) None w warn crit = Inl e"
  by (simp add: init_def)

text \<open>A warning threshold of 3 above a critical threshold of 2 is accepted.\<close>

theorem init_accepts_inverted_thresholds:
  "\<not> ((3::real) \<le> 2)
   \<and> init (Inl DataAccessError) (Some example_db) 30 3 2 =
       Inr \<lparr>db = example_db, window = 30, warning_threshold = 3, critical_threshold = 2\<rparr>"
  by (simp add: init_def)

subsection \<open>Rolling statistics and short series\<close>

lemma length_rolling_mean: "length (rolling_mean w xs) = length xs"
  by (simp add: rolling_mean_def)

lemma length_rolling_std: "length (rolling_std w xs) = length xs"
  by (simp add: rolling_std_def)

lemma rolling_mean_nth:
  "i < length xs \<Longrightarrow> rolling_mean w xs ! i = mean_of w (window_at w xs i)"
  by (simp add: rolling_mean_def)

lemma rolling_std_nth:
  "i < length xs \<Longrightarrow> rolling_std w xs ! i = std_of w (window_at w xs i)"
  by (simp add: rolling_std_def)

lemma length_window_at:
  "i < length xs \<Longrightarrow> length (window_at w xs i) = min (Suc i) w"
  by (auto simp add: window_at_def min_def)

lemma rolling_mean_undefined:
  "i < length xs \<Longrightarrow> Suc i < w \<Longrightarrow> rolling_mean w xs ! i = NaN"
  by (simp add: rolling_mean_nth mean_of_def length_window_at)

lemma rolling_std_undefined:
  "i < length xs \<Longrightarrow> Suc i < w \<Longrightarrow> rolling_std w xs ! i = NaN"
  by (simp add: rolling_std_nth std_of_def length_window_at)

lemma change_pct_NaN: "calc_change_pct c NaN = NaN"
  by (cases c) (simp_all add: calc_change_pct_def truthy_def)

lemma z_score_NaN_std: "calculate_z_score c m NaN = Fin 0"
  by (simp add: calculate_z_score_def)

lemma get_severity_zero:
  "0 < warning_threshold self \<Longrightarrow> 0 < critical_threshold self \<Longrightarrow>
   get_severity self (Fin 0) = NORMAL"
  by (simp add: get_severity_def)

text \<open>When the statistics read by a check are not-a-number, the evaluation is fixed
  up to the current value.\<close>

lemma evaluate_undefined:
  assumes "rows \<noteq> []"
    and "Suc (if 1 < length rows then length rows - 2 else length rows - 1)
           < nat (window self)"
  shows "evaluate self rows =
     Inr \<lparr>ev_current = Fin (snd (last (sort_key fst rows))), ev_expected = NaN,
          ev_z_score = Fin 0, ev_severity = get_severity self (Fin 0),
          ev_change_pct = NaN\<rparr>"
proof -
  let ?xs = "map snd (sort_key fst rows)"
  let ?n = "length rows"
  let ?j = "if 1 < ?n then ?n - 2 else ?n - 1"
  have n: "length ?xs = ?n" "0 < ?n" using assms(1) by simp_all
  have j: "?j < length ?xs" using n by auto
  have w: "\<not> window self < 0" using assms(2) by auto
  have m: "rolling_mean (nat (window self)) ?xs ! ?j = NaN"
    using j assms(2) by (rule rolling_mean_undefined)
  have s: "rolling_std (nat (window self)) ?xs ! ?j = NaN"
    using j assms(2) by (rule rolling_std_undefined)
  have ne: "sort_key fst rows \<noteq> []" using assms(1) n by (metis length_0_conv length_sort less_nat_zero_code)
  have l: "?xs ! (?n - 1) = snd (last (sort_key fst rows))"
    using ne n by (simp add: last_conv_nth nth_map)
  show ?thesis
  proof (cases "1 < ?n")
    case True
    with m s have "rolling_mean (nat (window self)) ?xs ! (?n - 2) = NaN"
      "rolling_std (nat (window self)) ?xs ! (?n - 2) = NaN" by simp_all
    then show ?thesis using True w n l ne
      by (simp add: evaluate_def Let_def z_score_NaN_std change_pct_NaN)
  next
    case False
    with m s have "rolling_mean (nat (window self)) ?xs ! (?n - 1) = NaN"
      "rolling_std (nat (window self)) ?xs ! (?n - 1) = NaN" by simp_all
    then show ?thesis using False w n l ne
      by (simp add: evaluate_def Let_def z_score_NaN_std change_pct_NaN)
  qed
qed

lemma check_total_tpv_eval:
  "daily_tpv (db self) = Inr rows \<Longrightarrow> evaluate self rows = Inr ev \<Longrightarrow>
   check_total_tpv self =
     Inr \<lparr>metric = ''tpv'', dimension = ''total'',
          current_value = ev_current ev, expected_value = ev_expected ev,
          z_score = ev_z_score ev, severity = ev_severity ev,
          change_pct = ev_change_pct ev,
          message = format_message ''tpv'' ''total'' (ev_z_score ev)
            (ev_change_pct ev) (ev_current ev) (ev_expected ev)\<rparr>"
  by (simp add: check_total_tpv_def)

lemma check_transactions_eval:
  "daily_txns (db self) = Inr rows \<Longrightarrow> evaluate self rows = Inr ev \<Longrightarrow>
   check_transactions self =
     Inr \<lparr>metric = ''transactions'', dimension = ''total'',
          current_value = ev_current ev, expected_value = ev_expected ev,
          z_score = ev_z_score ev, severity = ev_severity ev,
          change_pct = ev_change_pct ev,
          message = transactions_message (ev_z_score ev) (ev_change_pct ev)
            (ev_current ev) (ev_expected ev)\<rparr>"
  by (simp add: check_transactions_def)

lemma check_product_eval:
  "product_tpv (db self) p = Inr rows \<Longrightarrow> evaluate self rows = Inr ev \<Longrightarrow>
   check_product self p =
     Inr \<lparr>metric = ''tpv'', dimension = p,
          current_value = ev_current ev, expected_value = ev_expected ev,
          z_score = ev_z_score ev, severity = ev_severity ev,
          change_pct = ev_change_pct ev,
          message = format_message ''tpv'' p (ev_z_score ev)
            (ev_change_pct ev) (ev_current ev) (ev_expected ev)\<rparr>"
  by (simp add: check_product_def)

text \<open>
  C1, as the code has it. For a series that is not empty and shorter than the window, the
  rolling mean and the rolling standard deviation are not-a-number at every position (no
  value is computed over the observations available); no check fails on it, and each
  alert has a not-a-number expected value and a Z-score of 0.
\<close>

theorem short_series_statistics_undefined:
  assumes "rows \<noteq> []" and "length rows < nat (window self)"
  shows "(\<forall>i < length rows.
            rolling_mean (nat (window self)) (map snd (sort_key fst rows)) ! i = NaN
          \<and> rolling_std (nat (window self)) (map snd (sort_key fst rows)) ! i = NaN)
   \<and> (\<exists>ev. evaluate self rows = Inr ev \<and> ev_expected ev = NaN \<and> ev_z_score ev = Fin 0)
   \<and> (daily_tpv (db self) = Inr rows \<longrightarrow>
        (\<exists>a. check_total_tpv self = Inr a \<and> expected_value a = NaN \<and> z_score a = Fin 0))
   \<and> (daily_txns (db self) = Inr rows \<longrightarrow>
        (\<exists>a. check_transactions self = Inr a \<and> expected_value a = NaN
             \<and> z_score a = Fin 0))
   \<and> (product_tpv (db self) p = Inr rows \<longrightarrow>
        (\<exists>a. check_product self p = Inr a \<and> expected_value a = NaN \<and> z_score a = Fin 0))"
proof -
  have "Suc (if 1 < length rows then length rows - 2 else length rows - 1)
          < nat (window self)"
    using assms by (cases rows) auto
  from evaluate_undefined [OF assms(1) this]
  have ev: "evaluate self rows =
     Inr \<lparr>ev_current = Fin (snd (last (sort_key fst rows))), ev_expected = NaN,
          ev_z_score = Fin 0, ev_severity = get_severity self (Fin 0),
          ev_change_pct = NaN\<rparr>" .
  have stats: "\<forall>i < length rows.
            rolling_mean (nat (window self)) (map snd (sort_key fst rows)) ! i = NaN
          \<and> rolling_std (nat (window self)) (map snd (sort_key fst rows)) ! i = NaN"
    using assms(2) by (simp add: rolling_mean_undefined rolling_std_undefined)
  show ?thesis
    using stats ev check_total_tpv_eval [OF _ ev] check_transactions_eval [OF _ ev]
      check_product_eval [OF _ ev]
    by simp
qed

theorem short_series_statistics_undefined_witness:
  "[(1::int, 100::real), (2, 200), (3, 300)] \<noteq> []
   \<and> length [(1::int, 100::real), (2, 200), (3, 300)] < nat (window (default_detector example_db))
   \<and> rolling_mean 30 [100, 200, 300] ! 2 = NaN
   \<and> rolling_std 30 [100, 200, 300] ! 2 = NaN
   \<and> daily_tpv (db (default_detector example_db)) = Inr [(1, 100), (2, 200), (3, 300)]
   \<and> (\<exists>a. check_total_tpv (default_detector example_db) = Inr a
           \<and> expected_value a = NaN \<and> z_score a = Fin 0)
   \<and> daily_txns (db (default_detector example_db)) = Inr [(1, 10), (2, 20), (3, 30)]
   \<and> (\<exists>a. check_transactions (default_detector example_db) = Inr a
           \<and> expected_value a = NaN \<and> z_score a = Fin 0)
   \<and> product_tpv (db (default_detector example_db)) ''pix'' = Inr [(1, 60), (2, 120), (3, 180)]
   \<and> (\<exists>a. check_product (default_detector example_db) ''pix'' = Inr a
           \<and> expected_value a = NaN \<and> z_score a = Fin 0)"
  using short_series_statistics_undefined
      [of "[(1, 100), (2, 200), (3, 300)]" "default_detector example_db" "''pix''"]
    short_series_statistics_undefined
      [of "[(1, 10), (2, 20), (3, 30)]" "default_detector example_db" "''pix''"]
    short_series_statistics_undefined
      [of "[(1, 60), (2, 120), (3, 180)]" "default_detector example_db" "''pix''"]
  by (auto simp add: default_detector_def example_db_def sort_key_def)

lemma sqrt_10000: "sqrt 10000 = 100"
  by (rule real_sqrt_unique) simp_all

text \<open>Three observations under the default window of 30: every statistic is
  not-a-number, where a growing window would give the means 100, 150 and 200; the alert on
  total TPV carries a not-a-number expected value.\<close>

theorem short_series_not_growing_window:
  "rolling_mean 30 [100, 200, 300] = [NaN, NaN, NaN]
   \<and> rolling_std 30 [100, 200, 300] = [NaN, NaN, NaN]
   \<and> growing_mean 30 [100, 200, 300] = [Fin 100, Fin 150, Fin 200]
   \<and> growing_std 30 [100, 200, 300] ! 2 = Fin 100
   \<and> check_total_tpv (default_detector example_db) =
       Inr \<lparr>metric = ''tpv'', dimension = ''total'', current_value = Fin 300,
            expected_value = NaN, z_score = Fin 0, severity = NORMAL, change_pct = NaN,
            message = ''Total TPV spiked nan% (Z-score: 0.00). Current: R$ 300.00, Expected: R$ nan''\<rparr>"
proof -
  have 1: "rolling_mean 30 [100, 200, 300] = [NaN, NaN, NaN]" by code_simp
  have 2: "rolling_std 30 [100, 200, 300] = [NaN, NaN, NaN]"
    by (simp add: rolling_std_def std_of_def window_at_def upt_rec)
  have 3: "growing_mean 30 [100, 200, 300] = [Fin 100, Fin 150, Fin 200]" by code_simp
  have 4: "growing_std 30 [100, 200, 300] ! 2 = Fin 100"
    by (simp add: growing_std_def std_of_def window_at_def sqrt_10000 power2_eq_square upt_rec)
  have 5: "evaluate (default_detector example_db) [(1, 100), (2, 200), (3, 300)] =
     Inr \<lparr>ev_current = Fin 300, ev_expected = NaN, ev_z_score = Fin 0,
          ev_severity = NORMAL, ev_change_pct = NaN\<rparr>"
    using evaluate_undefined [of "[(1, 100), (2, 200), (3, 300)]" "default_detector example_db"]
    by (simp add: default_detector_def sort_key_def get_severity_def)
  have 6: "format_message ''tpv'' ''total'' (Fin 0) NaN (Fin 300) NaN =
      ''Total TPV spiked nan% (Z-score: 0.00). Current: R$ 300.00, Expected: R$ nan''"
    by (simp add: format_message_def upper_def upper_char_def round_half_even_def
      fixed_point_def zero_pad_def digit_char_def)
  have "daily_tpv (db (default_detector example_db)) = Inr [(1, 100), (2, 200), (3, 300)]"
    by (simp add: default_detector_def example_db_def)
  from check_total_tpv_eval [OF this 5] 6 1 2 3 4 show ?thesis by simp
qed

text \<open>
  C10, as the code has it. When the series has at least 2 and fewer than window + 1
  observations, the rolling mean and the rolling standard deviation read at the
  second-to-last position are not-a-number, since a value needs a full window; the Z-score
  of the alert is 0 whatever the observations are, and its severity is the one of a
  Z-score of 0, which is NORMAL exactly when both thresholds are above zero (the defaults
  are 2 and 3).
\<close>

theorem partial_window_gives_normal:
  assumes "2 \<le> length rows" and "int (length rows) < window self + 1"
  shows "rolling_mean (nat (window self)) (map snd (sort_key fst rows)) ! (length rows - 2)
           = NaN
   \<and> rolling_std (nat (window self)) (map snd (sort_key fst rows)) ! (length rows - 2)
           = NaN
   \<and> (\<exists>ev. evaluate self rows = Inr ev \<and> ev_z_score ev = Fin 0
             \<and> ev_severity ev = get_severity self (Fin 0))
   \<and> (daily_tpv (db self) = Inr rows \<longrightarrow>
        (\<exists>a. check_total_tpv self = Inr a \<and> z_score a = Fin 0
             \<and> severity a = get_severity self (Fin 0)))
   \<and> (daily_txns (db self) = Inr rows \<longrightarrow>
        (\<exists>a. check_transactions self = Inr a \<and> z_score a = Fin 0
             \<and> severity a = get_severity self (Fin 0)))
   \<and> (product_tpv (db self) p = Inr rows \<longrightarrow>
        (\<exists>a. check_product self p = Inr a \<and> z_score a = Fin 0
             \<and> severity a = get_severity self (Fin 0)))
   \<and> (get_severity self (Fin 0) = NORMAL
        \<longleftrightarrow> 0 < warning_threshold self \<and> 0 < critical_threshold self)"
proof -
  have ne: "rows \<noteq> []" using assms(1) by auto
  have pos: "Suc (length rows - 2) < nat (window self)" using assms by linarith
  then have "Suc (if 1 < length rows then length rows - 2 else length rows - 1)
          < nat (window self)"
    using assms(1) by simp
  from evaluate_undefined [OF ne this]
  have ev: "evaluate self rows =
     Inr \<lparr>ev_current = Fin (snd (last (sort_key fst rows))), ev_expected = NaN,
          ev_z_score = Fin 0, ev_severity = get_severity self (Fin 0),
          ev_change_pct = NaN\<rparr>" .
  have i: "length rows - 2 < length (map snd (sort_key fst rows))"
    using assms(1) by simp
  have stats:
    "rolling_mean (nat (window self)) (map snd (sort_key fst rows)) ! (length rows - 2) = NaN"
    "rolling_std (nat (window self)) (map snd (sort_key fst rows)) ! (length rows - 2) = NaN"
    using i pos by (rule rolling_mean_undefined, rule rolling_std_undefined)
  have sev: "get_severity self (Fin 0) = NORMAL
        \<longleftrightarrow> 0 < warning_threshold self \<and> 0 < critical_threshold self"
    by (auto simp add: get_severity_def)
  show ?thesis
    using stats ev sev check_total_tpv_eval [OF _ ev] check_transactions_eval [OF _ ev]
      check_product_eval [OF _ ev]
    by simp
qed

theorem partial_window_gives_normal_witness:
  "2 \<le> length [(1::int, 100::real), (2, 200), (3, 300)]
   \<and> int (length [(1::int, 100::real), (2, 200), (3, 300)]) < window window3_detector + 1
   \<and> 0 < warning_threshold window3_detector \<and> 0 < critical_threshold window3_detector
   \<and> rolling_mean 3 [100, 200, 300] ! 1 = NaN
   \<and> rolling_std 3 [100, 200, 300] ! 1 = NaN
   \<and> daily_tpv (db window3_detector) = Inr [(1, 100), (2, 200), (3, 300)]
   \<and> (\<exists>a. check_total_tpv window3_detector = Inr a \<and> z_score a = Fin 0
           \<and> severity a = NORMAL)
   \<and> daily_txns (db window3_detector) = Inr [(1, 10), (2, 20), (3, 30)]
   \<and> (\<exists>a. check_transactions window3_detector = Inr a \<and> z_score a = Fin 0
           \<and> severity a = NORMAL)
   \<and> product_tpv (db window3_detector) ''pos'' = Inr [(1, 40), (2, 80), (3, 120)]
   \<and> (\<exists>a. check_product window3_detector ''pos'' = Inr a \<and> z_score a = Fin 0
           \<and> severity a = NORMAL)"
proof -
  have w: "window window3_detector = 3" by (simp add: window3_detector_def)
  have th: "0 < warning_threshold window3_detector"
    "0 < critical_threshold window3_detector"
    by (simp_all add: window3_detector_def)
  have d: "daily_tpv (db window3_detector) = Inr [(1, 100), (2, 200), (3, 300)]"
    "daily_txns (db window3_detector) = Inr [(1, 10), (2, 20), (3, 30)]"
    "product_tpv (db window3_detector) ''pos'' = Inr [(1, 40), (2, 80), (3, 120)]"
    by (simp_all add: window3_detector_def example_db_def)
  note t1 = partial_window_gives_normal
      [of "[(1, 100), (2, 200), (3, 300)]" window3_detector "''pos''"]
  note t2 = partial_window_gives_normal
      [of "[(1, 10), (2, 20), (3, 30)]" window3_detector "''pos''"]
  note t3 = partial_window_gives_normal
      [of "[(1, 40), (2, 80), (3, 120)]" window3_detector "''pos''"]
  from t1 w have s: "rolling_mean 3 [100, 200, 300] ! 1 = NaN"
    "rolling_std 3 [100, 200, 300] ! 1 = NaN"
    by (simp_all add: sort_key_def)
  from t1 w th have n: "get_severity window3_detector (Fin 0) = NORMAL" by simp
  from t1 w d n have 1: "\<exists>a. check_total_tpv window3_detector = Inr a \<and> z_score a = Fin 0
           \<and> severity a = NORMAL" by simp
  from t2 w d n have 2: "\<exists>a. check_transactions window3_detector = Inr a
           \<and> z_score a = Fin 0 \<and> severity a = NORMAL" by simp
  from t3 w d n have 3: "\<exists>a. check_product window3_detector ''pos'' = Inr a
           \<and> z_score a = Fin 0 \<and> severity a = NORMAL" by simp
  from w th s d 1 2 3 show ?thesis by simp
qed

text \<open>Three observations under a window of 3 and a warning threshold of 0: the Z-score
  is 0 and the severity is WARNING.\<close>

theorem partial_window_zero_threshold_warns:
  "2 \<le> length [(1::int, 100::real), (2, 200), (3, 300)]
   \<and> int (length [(1::int, 100::real), (2, 200), (3, 300)])
        < window zero_warning_detector + 1
   \<and> daily_tpv (db zero_warning_detector) = Inr [(1, 100), (2, 200), (3, 300)]
   \<and> check_total_tpv zero_warning_detector =
       Inr \<lparr>metric = ''tpv'', dimension = ''total'', current_value = Fin 300,
            expected_value = NaN, z_score = Fin 0, severity = WARNING, change_pct = NaN,
            message = ''Total TPV spiked nan% (Z-score: 0.00). Current: R$ 300.00, Expected: R$ nan''\<rparr>"
proof -
  have ev: "evaluate zero_warning_detector [(1, 100), (2, 200), (3, 300)] =
     Inr \<lparr>ev_current = Fin 300, ev_expected = NaN, ev_z_score = Fin 0,
          ev_severity = WARNING, ev_change_pct = NaN\<rparr>"
    using evaluate_undefined [of "[(1, 100), (2, 200), (3, 300)]" zero_warning_detector]
    by (simp add: zero_warning_detector_def sort_key_def get_severity_def)
  have msg: "format_message ''tpv'' ''total'' (Fin 0) NaN (Fin 300) NaN =
      ''Total TPV spiked nan% (Z-score: 0.00). Current: R$ 300.00, Expected: R$ nan''"
    by (simp add: format_message_def upper_def upper_char_def round_half_even_def
      fixed_point_def zero_pad_def digit_char_def)
  have d: "daily_tpv (db zero_warning_detector) = Inr [(1, 100), (2, 200), (3, 300)]"
    by (simp add: zero_warning_detector_def example_db_def)
  from check_total_tpv_eval [OF d ev] msg d show ?thesis
    by (simp add: zero_warning_detector_def)
qed

lemma evaluate_single_window_one:
  assumes "window self = 1"
  shows "evaluate self [(d, v)] =
     Inr \<lparr>ev_current = Fin v, ev_expected = Fin v, ev_z_score = Fin 0,
          ev_severity = get_severity self (Fin 0), ev_change_pct = Fin 0\<rparr>"
  using assms
  by (simp add: evaluate_def Let_def sort_key_def rolling_mean_def rolling_std_def
      mean_of_def std_of_def window_at_def calculate_z_score_def calc_change_pct_def
      truthy_def)

lemma evaluate_single_other_window:
  assumes "0 \<le> window self" and "window self \<noteq> 1"
  shows "evaluate self [(d, v)] =
     Inr \<lparr>ev_current = Fin v, ev_expected = NaN, ev_z_score = Fin 0,
          ev_severity = get_severity self (Fin 0), ev_change_pct = NaN\<rparr>"
proof (cases "window self = 0")
  case True
  then show ?thesis
    by (simp add: evaluate_def Let_def sort_key_def rolling_mean_def rolling_std_def
      mean_of_def std_of_def window_at_def calculate_z_score_def calc_change_pct_def
      truthy_def)
next
  case False
  with assms have "Suc 0 < nat (window self)" by linarith
  with evaluate_undefined [of "[(d, v)]" self] show ?thesis
    by (simp add: sort_key_def)
qed

text \<open>
  C4, as the code has it. On a series with exactly one entry no check fails; the current
  value is that entry, the Z-score is 0 and, for thresholds above zero, the severity is
  NORMAL. The expected value is the current value and the percentage change 0 only for a
  window of 1; for every other window, the default of 30 among them, both are
  not-a-number.
\<close>

theorem single_entry_series:
  assumes "0 \<le> window self"
  shows "\<exists>ev. evaluate self [(d, v)] = Inr ev
     \<and> ev_current ev = Fin v \<and> ev_z_score ev = Fin 0
     \<and> (0 < warning_threshold self \<and> 0 < critical_threshold self \<longrightarrow>
           ev_severity ev = NORMAL)
     \<and> (window self = 1 \<longrightarrow> ev_expected ev = Fin v \<and> ev_change_pct ev = Fin 0)
     \<and> (window self \<noteq> 1 \<longrightarrow> ev_expected ev = NaN \<and> ev_change_pct ev = NaN)
     \<and> (daily_tpv (db self) = Inr [(d, v)] \<longrightarrow>
           (\<exists>a. check_total_tpv self = Inr a \<and> current_value a = ev_current ev
               \<and> expected_value a = ev_expected ev \<and> change_pct a = ev_change_pct ev
               \<and> z_score a = ev_z_score ev \<and> severity a = ev_severity ev))
     \<and> (daily_txns (db self) = Inr [(d, v)] \<longrightarrow>
           (\<exists>a. check_transactions self = Inr a \<and> current_value a = ev_current ev
               \<and> expected_value a = ev_expected ev \<and> change_pct a = ev_change_pct ev
               \<and> z_score a = ev_z_score ev \<and> severity a = ev_severity ev))
     \<and> (product_tpv (db self) p = Inr [(d, v)] \<longrightarrow>
           (\<exists>a. check_product self p = Inr a \<and> current_value a = ev_current ev
               \<and> expected_value a = ev_expected ev \<and> change_pct a = ev_change_pct ev
               \<and> z_score a = ev_z_score ev \<and> severity a = ev_severity ev))"
proof (cases "window self = 1")
  case True
  note ev = evaluate_single_window_one [OF True, of d v]
  show ?thesis
    using True ev check_total_tpv_eval [OF _ ev] check_transactions_eval [OF _ ev]
      check_product_eval [OF _ ev]
    by (simp add: get_severity_zero)
next
  case False
  note ev = evaluate_single_other_window [OF assms False, of d v]
  show ?thesis
    using False ev check_total_tpv_eval [OF _ ev] check_transactions_eval [OF _ ev]
      check_product_eval [OF _ ev]
    by (simp add: get_severity_zero)
qed

theorem single_entry_series_witness:
  "0 \<le> window (default_detector single_db) \<and> window (default_detector single_db) \<noteq> 1
   \<and> 0 < warning_threshold (default_detector single_db)
   \<and> 0 < critical_threshold (default_detector single_db)
   \<and> daily_txns (db (default_detector single_db)) = Inr [(1, 7)]
   \<and> (\<exists>a. check_transactions (default_detector single_db) = Inr a
         \<and> current_value a = Fin 7 \<and> expected_value a = NaN \<and> change_pct a = NaN
         \<and> z_score a = Fin 0 \<and> severity a = NORMAL)
   \<and> 0 \<le> window window1_detector \<and> window window1_detector = 1
   \<and> daily_tpv (db window1_detector) = Inr [(1, 500)]
   \<and> (\<exists>a. check_total_tpv window1_detector = Inr a
         \<and> current_value a = Fin 500 \<and> expected_value a = Fin 500 \<and> change_pct a = Fin 0
         \<and> z_score a = Fin 0 \<and> severity a = NORMAL)
   \<and> product_tpv (db window1_detector) ''pix'' = Inr [(1, 500)]
   \<and> (\<exists>a. check_product window1_detector ''pix'' = Inr a
         \<and> current_value a = Fin 500 \<and> expected_value a = Fin 500 \<and> change_pct a = Fin 0
         \<and> z_score a = Fin 0 \<and> severity a = NORMAL)"
  using single_entry_series [of "default_detector single_db" 1 7 "''pix''"]
    single_entry_series [of window1_detector 1 500 "''pix''"]
  by (auto simp add: default_detector_def window1_detector_def single_db_def)

text \<open>The single-point series 500 under the default settings: the expected value and the
  percentage change are not-a-number, not 500 and 0.\<close>

theorem single_entry_default_window:
  "check_total_tpv (default_detector single_db) =
     Inr \<lparr>metric = ''tpv'', dimension = ''total'', current_value = Fin 500,
          expected_value = NaN, z_score = Fin 0, severity = NORMAL, change_pct = NaN,
          message = ''Total TPV spiked nan% (Z-score: 0.00). Current: R$ 500.00, Expected: R$ nan''\<rparr>"
proof -
  have ev: "evaluate (default_detector single_db) [(1, 500)] =
     Inr \<lparr>ev_current = Fin 500, ev_expected = NaN, ev_z_score = Fin 0,
          ev_severity = NORMAL, ev_change_pct = NaN\<rparr>"
    using evaluate_single_other_window [of "default_detector single_db" 1 500]
    by (simp add: default_detector_def get_severity_def)
  have msg: "format_message ''tpv'' ''total'' (Fin 0) NaN (Fin 500) NaN =
      ''Total TPV spiked nan% (Z-score: 0.00). Current: R$ 500.00, Expected: R$ nan''"
    by (simp add: format_message_def upper_def upper_char_def round_half_even_def
      fixed_point_def zero_pad_def digit_char_def)
  have "daily_tpv (db (default_detector single_db)) = Inr [(1, 500)]"
    by (simp add: default_detector_def single_db_def)
  from check_total_tpv_eval [OF this ev] msg show ?thesis by simp
qed

subsection \<open>Orchestration\<close>

lemma sort_key_Nil_iff: "sort_key f rows = [] \<longleftrightarrow> rows = []"
  by (metis length_0_conv length_sort)

lemma evaluate_succeeds:
  "0 \<le> window self \<Longrightarrow> rows \<noteq> [] \<Longrightarrow> \<exists>ev. evaluate self rows = Inr ev"
  by (simp add: evaluate_def Let_def sort_key_Nil_iff)

lemma check_products_dimensions:
  "check_products self ps = Inr as \<Longrightarrow> map dimension as = ps"
proof (induction ps arbitrary: as)
  case Nil
  then show ?case by simp
next
  case (Cons p ps)
  then show ?case
    by (auto simp add: check_product_def split: sum.splits)
qed

lemma check_products_results:
  "check_products self ps = Inr as \<Longrightarrow> map (check_product self) ps = map Inr as"
proof (induction ps arbitrary: as)
  case Nil
  then show ?case by simp
next
  case (Cons p ps)
  then show ?case by (auto split: sum.splits)
qed

lemma evaluate_empty: "0 \<le> window self \<Longrightarrow> evaluate self [] = Inl IndexError"
  by (simp add: evaluate_def Let_def sort_key_def)

lemma run_all_checks_empty:
  "0 \<le> window self \<Longrightarrow> daily_tpv (db self) = Inr [] \<Longrightarrow>
   run_all_checks self = Inl IndexError"
  by (simp add: run_all_checks_def check_total_tpv_def evaluate_empty)

lemma check_products_succeeds:
  "(\<forall>p \<in> set ps. \<exists>a. check_product self p = Inr a) \<Longrightarrow>
   \<exists>as. check_products self ps = Inr as"
  by (induction ps) auto

lemma check_products_fails:
  "p \<in> set ps \<Longrightarrow> check_product self p = Inl e \<Longrightarrow>
   \<exists>e'. check_products self ps = Inl e'"
  by (induction ps) (auto split: sum.splits)

lemma count_alerts_total:
  "total_alerts (foldl count_alert s as) = total_alerts s + length as"
  by (induction as arbitrary: s) (simp_all add: count_alert_def Let_def)

lemma count_alerts_critical:
  "critical (foldl count_alert s as) =
     critical s + length (filter (\<lambda>a. severity a = CRITICAL) as)"
  by (induction as arbitrary: s) (simp_all add: count_alert_def Let_def)

lemma count_alerts_warning:
  "warning (foldl count_alert s as) =
     warning s + length (filter (\<lambda>a. severity a = WARNING) as)"
  by (induction as arbitrary: s) (simp_all add: count_alert_def Let_def)

lemma count_alerts_normal:
  "normal (foldl count_alert s as) =
     normal s + length (filter (\<lambda>a. severity a = NORMAL) as)"
proof (induction as arbitrary: s)
  case Nil
  then show ?case by simp
next
  case (Cons a as)
  then show ?case by (cases "severity a") (simp_all add: count_alert_def Let_def)
qed

lemma severity_partition:
  "length (filter (\<lambda>a. severity a = CRITICAL) as)
   + length (filter (\<lambda>a. severity a = WARNING) as)
   + length (filter (\<lambda>a. severity a = NORMAL) as) = length as"
proof (induction as)
  case Nil
  then show ?case by simp
next
  case (Cons a as)
  then show ?case by (cases "severity a") simp_all
qed

lemma run_all_checks_Inr:
  assumes "run_all_checks self = Inr r"
  shows "\<exists>t x ps. check_total_tpv self = Inr t \<and> check_transactions self = Inr x
     \<and> check_tpv_by_product self = Inr ps
     \<and> total_tpv r = t \<and> transactions r = x \<and> by_product r = ps
     \<and> summary r = foldl count_alert
          \<lparr>total_alerts = 0, critical = 0, warning = 0, normal = 0\<rparr> (t # x # ps)"
  using assms
  by (auto simp add: run_all_checks_def Let_def all_alerts_def split: sum.splits)

lemma run_all_checks_succeeds:
  assumes "check_total_tpv self = Inr t" and "check_transactions self = Inr x"
    and "check_tpv_by_product self = Inr ps"
  shows "\<exists>r. run_all_checks self = Inr r"
  using assms by (simp add: run_all_checks_def Let_def)

text \<open>
  C9, as the code has it. A run of all checks that returns holds the alert of the check on
  total TPV, the alert of the check on transactions, and one alert per entry of the list
  of products that the database reports, each the outcome of the check of that product, in
  the order of the list: the number of alerts is 2 plus the length of the list (the number
  of distinct products when the list has no repetition), each counter is the number of
  alerts of its severity, and the three counters add up to the number of alerts. The run
  returns whenever the window is not negative, the queries succeed and every series has at
  least one row; on a source without rows it raises an IndexError and holds no alert.
\<close>

theorem one_alert_per_product_and_counts:
  "(run_all_checks self = Inr r \<longrightarrow>
      check_total_tpv self = Inr (total_tpv r)
      \<and> check_transactions self = Inr (transactions r)
      \<and> (\<exists>products. unique_products (db self) = Inr products
         \<and> map (check_product self) products = map Inr (by_product r)
         \<and> map dimension (by_product r) = products
         \<and> total_alerts (summary r) = 2 + length products
         \<and> (distinct products \<longrightarrow> total_alerts (summary r) = 2 + card (set products)))
      \<and> total_alerts (summary r) = length (all_alerts r)
      \<and> critical (summary r) = length (filter (\<lambda>a. severity a = CRITICAL) (all_alerts r))
      \<and> warning (summary r) = length (filter (\<lambda>a. severity a = WARNING) (all_alerts r))
      \<and> normal (summary r) = length (filter (\<lambda>a. severity a = NORMAL) (all_alerts r))
      \<and> critical (summary r) + warning (summary r) + normal (summary r)
          = total_alerts (summary r))
   \<and> (0 \<le> window self \<and> daily_tpv (db self) = Inr rows1 \<and> rows1 \<noteq> []
       \<and> daily_txns (db self) = Inr rows2 \<and> rows2 \<noteq> []
       \<and> unique_products (db self) = Inr products
       \<and> (\<forall>p \<in> set products. \<exists>rows. product_tpv (db self) p = Inr rows \<and> rows \<noteq> [])
      \<longrightarrow> (\<exists>r. run_all_checks self = Inr r))
   \<and> (0 \<le> window self \<and> daily_tpv (db self) = Inr []
      \<longrightarrow> run_all_checks self = Inl IndexError)"
proof (intro conjI impI)
  assume "0 \<le> window self \<and> daily_tpv (db self) = Inr []"
  then show "run_all_checks self = Inl IndexError"
    using run_all_checks_empty by blast
next
  assume run: "run_all_checks self = Inr r"
  from run_all_checks_Inr [OF run] obtain t x ps where
    ct: "check_total_tpv self = Inr t" and cx: "check_transactions self = Inr x" and
    c: "check_tpv_by_product self = Inr ps" and
    r: "total_tpv r = t" "transactions r = x" "by_product r = ps" and
    s: "summary r = foldl count_alert
          \<lparr>total_alerts = 0, critical = 0, warning = 0, normal = 0\<rparr> (t # x # ps)"
    by blast
  have a: "all_alerts r = t # x # ps" using r by (simp add: all_alerts_def)
  from c obtain products where
    u: "unique_products (db self) = Inr products" and
    p: "check_products self products = Inr ps"
    by (auto simp add: check_tpv_by_product_def split: sum.splits)
  have d: "map dimension ps = products" using p by (rule check_products_dimensions)
  then have l: "length ps = length products" by (metis length_map)
  have tot: "total_alerts (summary r) = 2 + length products"
    unfolding s count_alerts_total using l by simp
  have e: "map (check_product self) products = map Inr ps"
    using p by (rule check_products_results)
  show "check_total_tpv self = Inr (total_tpv r)" using ct r by simp
  show "check_transactions self = Inr (transactions r)" using cx r by simp
  show "\<exists>products. unique_products (db self) = Inr products
         \<and> map (check_product self) products = map Inr (by_product r)
         \<and> map dimension (by_product r) = products
         \<and> total_alerts (summary r) = 2 + length products
         \<and> (distinct products \<longrightarrow> total_alerts (summary r) = 2 + card (set products))"
    using u d e r tot by (simp add: distinct_card)
  show "total_alerts (summary r) = length (all_alerts r)"
    unfolding s a count_alerts_total by simp
  show cr: "critical (summary r) = length (filter (\<lambda>a. severity a = CRITICAL) (all_alerts r))"
    unfolding s a count_alerts_critical by simp
  show wa: "warning (summary r) = length (filter (\<lambda>a. severity a = WARNING) (all_alerts r))"
    unfolding s a count_alerts_warning by simp
  show no: "normal (summary r) = length (filter (\<lambda>a. severity a = NORMAL) (all_alerts r))"
    unfolding s a count_alerts_normal by simp
  show "critical (summary r) + warning (summary r) + normal (summary r)
          = total_alerts (summary r)"
    unfolding cr wa no using severity_partition [of "all_alerts r"]
    unfolding s a count_alerts_total by simp
next
  assume h: "0 \<le> window self \<and> daily_tpv (db self) = Inr rows1 \<and> rows1 \<noteq> []
       \<and> daily_txns (db self) = Inr rows2 \<and> rows2 \<noteq> []
       \<and> unique_products (db self) = Inr products
       \<and> (\<forall>p \<in> set products. \<exists>rows. product_tpv (db self) p = Inr rows \<and> rows \<noteq> [])"
  then obtain ev1 ev2 where e1: "evaluate self rows1 = Inr ev1"
    and e2: "evaluate self rows2 = Inr ev2"
    using evaluate_succeeds by blast
  from h e1 obtain t where t: "check_total_tpv self = Inr t"
    using check_total_tpv_eval by blast
  from h e2 obtain x where x: "check_transactions self = Inr x"
    using check_transactions_eval by blast
  have "\<forall>p \<in> set products. \<exists>a. check_product self p = Inr a"
  proof
    fix p assume "p \<in> set products"
    with h obtain rows where "product_tpv (db self) p = Inr rows" "rows \<noteq> []" by blast
    moreover from this h obtain ev where "evaluate self rows = Inr ev"
      using evaluate_succeeds by blast
    ultimately show "\<exists>a. check_product self p = Inr a"
      using check_product_eval by blast
  qed
  then obtain ps where "check_products self products = Inr ps"
    using check_products_succeeds by blast
  with h have "check_tpv_by_product self = Inr ps"
    by (simp add: check_tpv_by_product_def)
  with t x show "\<exists>r. run_all_checks self = Inr r"
    by (rule run_all_checks_succeeds)
qed

text \<open>The worked example: the four alerts of \<open>rich_detector\<close>, their messages and the
  counters of the run.\<close>

lemma sqrt_squares: "sqrt 9 = 3" "sqrt 36 = 6" "sqrt 900 = 30"
  by (rule real_sqrt_unique; simp)+

lemmas stats_defs = evaluate_def Let_def sort_key_def rolling_mean_def rolling_std_def
  mean_of_def std_of_def window_at_def calculate_z_score_def calc_change_pct_def truthy_def
  get_severity_def upt_rec power2_eq_square

lemmas message_defs = format_message_def transactions_message_def upper_def upper_char_def
  round_half_even_def fixed_point_def zero_pad_def digit_char_def

lemma rich_total: "evaluate rich_detector [(1, 0), (2, 6), (3, 12), (4, 13)] =
  Inr \<lparr>ev_current = Fin 13, ev_expected = Fin 6, ev_z_score = Fin (7 / 6),
       ev_severity = NORMAL, ev_change_pct = Fin (350 / 3)\<rparr>"
  by (simp add: stats_defs rich_detector_def sqrt_squares)

lemma rich_txns: "evaluate rich_detector [(1, 0), (2, 30), (3, 60), (4, 96)] =
  Inr \<lparr>ev_current = Fin 96, ev_expected = Fin 30, ev_z_score = Fin (11 / 5),
       ev_severity = WARNING, ev_change_pct = Fin 220\<rparr>"
  by (simp add: stats_defs rich_detector_def sqrt_squares)

lemma rich_pix: "evaluate rich_detector [(1, 0), (2, 3), (3, 6), (4, 12)] =
  Inr \<lparr>ev_current = Fin 12, ev_expected = Fin 3, ev_z_score = Fin 3,
       ev_severity = CRITICAL, ev_change_pct = Fin 300\<rparr>"
  by (simp add: stats_defs rich_detector_def sqrt_squares)

lemma rich_pos: "evaluate rich_detector [(1, 0), (2, 3), (3, 6), (4, 1)] =
  Inr \<lparr>ev_current = Fin 1, ev_expected = Fin 3, ev_z_score = Fin (- 2 / 3),
       ev_severity = NORMAL, ev_change_pct = Fin (- 200 / 3)\<rparr>"
  by (simp add: stats_defs rich_detector_def sqrt_squares)

lemma rich_total_message:
  "format_message ''tpv'' ''total'' (Fin (7 / 6)) (Fin (350 / 3)) (Fin 13) (Fin 6) =
   ''Total TPV spiked 116.7% (Z-score: 1.17). Current: R$ 13.00, Expected: R$ 6.00''"
  by (simp add: message_defs)

lemma rich_txns_message:
  "transactions_message (Fin (11 / 5)) (Fin 220) (Fin 96) (Fin 30) =
   ''Transaction count spiked 220.0% (Z-score: 2.20). Current: 96, Expected: 30''"
  by (simp add: message_defs)

lemma rich_pix_message:
  "format_message ''tpv'' ''pix'' (Fin 3) (Fin 300) (Fin 12) (Fin 3) =
   ''TPV for PIX spiked 300.0% (Z-score: 3.00). Current: R$ 12.00, Expected: R$ 3.00''"
  by (simp add: message_defs)

lemma rich_pos_message:
  "format_message ''tpv'' ''pos'' (Fin (- 2 / 3)) (Fin (- 200 / 3)) (Fin 1) (Fin 3) =
   ''TPV for POS dropped 66.7% (Z-score: -0.67). Current: R$ 1.00, Expected: R$ 3.00''"
  by (simp add: message_defs)

lemma rich_check_total_tpv:
  "check_total_tpv rich_detector =
     Inr \<lparr>metric = ''tpv'', dimension = ''total'', current_value = Fin 13,
          expected_value = Fin 6, z_score = Fin (7 / 6), severity = NORMAL,
          change_pct = Fin (350 / 3),
          message = ''Total TPV spiked 116.7% (Z-score: 1.17). Current: R$ 13.00, Expected: R$ 6.00''\<rparr>"
  using check_total_tpv_eval [OF _ rich_total] rich_total_message
  by (simp add: rich_detector_def rich_db_def)

lemma rich_check_transactions:
  "check_transactions rich_detector =
     Inr \<lparr>metric = ''transactions'', dimension = ''total'', current_value = Fin 96,
          expected_value = Fin 30, z_score = Fin (11 / 5), severity = WARNING,
          change_pct = Fin 220,
          message = ''Transaction count spiked 220.0% (Z-score: 2.20). Current: 96, Expected: 30''\<rparr>"
  using check_transactions_eval [OF _ rich_txns] rich_txns_message
  by (simp add: rich_detector_def rich_db_def)

lemma rich_check_pix:
  "check_product rich_detector ''pix'' =
     Inr \<lparr>metric = ''tpv'', dimension = ''pix'', current_value = Fin 12,
          expected_value = Fin 3, z_score = Fin 3, severity = CRITICAL,
          change_pct = Fin 300,
          message = ''TPV for PIX spiked 300.0% (Z-score: 3.00). Current: R$ 12.00, Expected: R$ 3.00''\<rparr>"
  using check_product_eval [OF _ rich_pix, of "''pix''"] rich_pix_message
  by (simp add: rich_detector_def rich_db_def)

lemma rich_check_pos:
  "check_product rich_detector ''pos'' =
     Inr \<lparr>metric = ''tpv'', dimension = ''pos'', current_value = Fin 1,
          expected_value = Fin 3, z_score = Fin (- 2 / 3), severity = NORMAL,
          change_pct = Fin (- 200 / 3),
          message = ''TPV for POS dropped 66.7% (Z-score: -0.67). Current: R$ 1.00, Expected: R$ 3.00''\<rparr>"
  using check_product_eval [OF _ rich_pos, of "''pos''"] rich_pos_message
  by (simp add: rich_detector_def rich_db_def)

lemma rich_by_product:
  "check_tpv_by_product rich_detector =
     Inr [\<lparr>metric = ''tpv'', dimension = ''pix'', current_value = Fin 12,
          expected_value = Fin 3, z_score = Fin 3, severity = CRITICAL,
          change_pct = Fin 300,
          message = ''TPV for PIX spiked 300.0% (Z-score: 3.00). Current: R$ 12.00, Expected: R$ 3.00''\<rparr>,
          \<lparr>metric = ''tpv'', dimension = ''pos'', current_value = Fin 1,
          expected_value = Fin 3, z_score = Fin (- 2 / 3), severity = NORMAL,
          change_pct = Fin (- 200 / 3),
          message = ''TPV for POS dropped 66.7% (Z-score: -0.67). Current: R$ 1.00, Expected: R$ 3.00''\<rparr>]"
proof -
  have "unique_products (db rich_detector) = Inr [''pix'', ''pos'']"
    by (simp add: rich_detector_def rich_db_def)
  then show ?thesis
    by (simp add: check_tpv_by_product_def rich_check_pix rich_check_pos)
qed

lemma rich_summary:
  "\<exists>r. run_all_checks rich_detector = Inr r
     \<and> summary r = \<lparr>total_alerts = 4, critical = 1, warning = 1, normal = 2\<rparr>
     \<and> map dimension (all_alerts r) = [''total'', ''total'', ''pix'', ''pos'']
     \<and> map severity (all_alerts r) = [NORMAL, WARNING, CRITICAL, NORMAL]"
  by (simp add: run_all_checks_def rich_check_total_tpv rich_check_transactions
      rich_by_product Let_def all_alerts_def count_alert_def)

theorem one_alert_per_product_and_counts_witness:
  "0 \<le> window rich_detector
   \<and> daily_tpv (db rich_detector) = Inr [(1, 0), (2, 6), (3, 12), (4, 13)]
   \<and> daily_txns (db rich_detector) = Inr [(1, 0), (2, 30), (3, 60), (4, 96)]
   \<and> unique_products (db rich_detector) = Inr [''pix'', ''pos'']
   \<and> distinct [''pix'', ''pos'']
   \<and> (\<exists>r. run_all_checks rich_detector = Inr r
         \<and> check_total_tpv rich_detector = Inr (total_tpv r)
         \<and> check_transactions rich_detector = Inr (transactions r)
         \<and> map (check_product rich_detector) [''pix'', ''pos''] = map Inr (by_product r)
         \<and> map dimension (by_product r) = [''pix'', ''pos'']
         \<and> total_alerts (summary r) = 2 + card (set [''pix'', ''pos''])
         \<and> total_alerts (summary r) = 4
         \<and> critical (summary r) + warning (summary r) + normal (summary r) = 4)
   \<and> 0 \<le> window (default_detector empty_db)
   \<and> daily_tpv (db (default_detector empty_db)) = Inr []
   \<and> run_all_checks (default_detector empty_db) = Inl IndexError"
proof -
  have h: "0 \<le> window rich_detector
     \<and> daily_tpv (db rich_detector) = Inr [(1, 0), (2, 6), (3, 12), (4, 13)]
     \<and> [(1::int, 0::real), (2, 6), (3, 12), (4, 13)] \<noteq> []
     \<and> daily_txns (db rich_detector) = Inr [(1, 0), (2, 30), (3, 60), (4, 96)]
     \<and> [(1::int, 0::real), (2, 30), (3, 60), (4, 96)] \<noteq> []
     \<and> unique_products (db rich_detector) = Inr [''pix'', ''pos'']
     \<and> (\<forall>p \<in> set [''pix'', ''pos''].
           \<exists>rows. product_tpv (db rich_detector) p = Inr rows \<and> rows \<noteq> [])"
    by (simp add: rich_detector_def rich_db_def)
  from one_alert_per_product_and_counts
    [of rich_detector _ "[(1, 0), (2, 6), (3, 12), (4, 13)]"
      "[(1, 0), (2, 30), (3, 60), (4, 96)]" "[''pix'', ''pos'']",
      THEN conjunct2, THEN conjunct1, THEN mp, OF h]
  obtain r where r: "run_all_checks rich_detector = Inr r" ..
  note p1 = one_alert_per_product_and_counts
    [of rich_detector r "[(1, 0), (2, 6), (3, 12), (4, 13)]"
      "[(1, 0), (2, 30), (3, 60), (4, 96)]" "[''pix'', ''pos'']",
      THEN conjunct1, THEN mp, OF r]
  from p1 h
  have a: "check_total_tpv rich_detector = Inr (total_tpv r)
     \<and> check_transactions rich_detector = Inr (transactions r)
     \<and> map (check_product rich_detector) [''pix'', ''pos''] = map Inr (by_product r)
     \<and> map dimension (by_product r) = [''pix'', ''pos'']
     \<and> total_alerts (summary r) = 2 + card (set [''pix'', ''pos''])
     \<and> total_alerts (summary r) = 4
     \<and> critical (summary r) + warning (summary r) + normal (summary r) = 4"
    by auto
  have he: "0 \<le> window (default_detector empty_db)
     \<and> daily_tpv (db (default_detector empty_db)) = Inr []"
    by (simp add: default_detector_def empty_db_def)
  note e = one_alert_per_product_and_counts
    [of "default_detector empty_db" r "[]" "[]" "[]",
      THEN conjunct2, THEN conjunct2, THEN mp, OF he]
  from r a have "\<exists>r. run_all_checks rich_detector = Inr r
         \<and> check_total_tpv rich_detector = Inr (total_tpv r)
         \<and> check_transactions rich_detector = Inr (transactions r)
         \<and> map (check_product rich_detector) [''pix'', ''pos''] = map Inr (by_product r)
         \<and> map dimension (by_product r) = [''pix'', ''pos'']
         \<and> total_alerts (summary r) = 2 + card (set [''pix'', ''pos''])
         \<and> total_alerts (summary r) = 4
         \<and> critical (summary r) + warning (summary r) + normal (summary r) = 4"
    by (intro exI [of _ r] conjI) simp_all
  with h he e show ?thesis by simp
qed

text \<open>A source without rows reports no product; the run raises and returns neither the
  two totals nor a summary.\<close>

theorem empty_source_raises:
  "unique_products (db (default_detector empty_db)) = Inr []
   \<and> run_all_checks (default_detector empty_db) = Inl IndexError
   \<and> get_alerts_for_display (default_detector empty_db) = Inl IndexError"
proof -
  have w: "0 \<le> window (default_detector empty_db)"
    and d: "daily_tpv (db (default_detector empty_db)) = Inr []"
    and u: "unique_products (db (default_detector empty_db)) = Inr []"
    by (simp_all add: default_detector_def empty_db_def)
  from run_all_checks_empty [OF w d] u show ?thesis
    by (simp add: get_alerts_for_display_def)
qed

lemma check_total_tpv_succeeds:
  "0 \<le> window self \<Longrightarrow> daily_tpv (db self) = Inr rows \<Longrightarrow> rows \<noteq> [] \<Longrightarrow>
   \<exists>a. check_total_tpv self = Inr a"
  using evaluate_succeeds check_total_tpv_eval by blast

lemma check_transactions_succeeds:
  "0 \<le> window self \<Longrightarrow> daily_txns (db self) = Inr rows \<Longrightarrow> rows \<noteq> [] \<Longrightarrow>
   \<exists>a. check_transactions self = Inr a"
  using evaluate_succeeds check_transactions_eval by blast

lemma check_product_succeeds:
  "0 \<le> window self \<Longrightarrow> product_tpv (db self) p = Inr rows \<Longrightarrow> rows \<noteq> [] \<Longrightarrow>
   \<exists>a. check_product self p = Inr a"
  using evaluate_succeeds check_product_eval by blast

lemma display_propagates:
  "run_all_checks self = Inl e \<Longrightarrow> get_alerts_for_display self = Inl e"
  by (simp add: get_alerts_for_display_def)

lemma check_products_first_failure:
  "(\<forall>q \<in> set pre. \<exists>a. check_product self q = Inr a) \<Longrightarrow>
   check_product self p = Inl e \<Longrightarrow>
   check_products self (pre @ p # post) = Inl e"
  by (induction pre) auto

text \<open>
  C8, as the code has it. A failing query fails its check with the same exception, and a
  check that fails ends the run: the exception of the first failing check, in the order
  total TPV, transactions, list of products, then the products in the order of the list,
  is the outcome of \<open>run_all_checks\<close> and of \<open>get_alerts_for_display\<close>. No alert of
  another check and no marker of the failure is returned.
\<close>

theorem failed_check_aborts_run:
  "(daily_tpv (db self) = Inl e \<longrightarrow> check_total_tpv self = Inl e)
   \<and> (daily_txns (db self) = Inl e \<longrightarrow> check_transactions self = Inl e)
   \<and> (product_tpv (db self) p = Inl e \<longrightarrow> check_product self p = Inl e)
   \<and> (unique_products (db self) = Inl e \<longrightarrow> check_tpv_by_product self = Inl e)
   \<and> (unique_products (db self) = Inr (pre @ p # post)
        \<and> (\<forall>q \<in> set pre. \<exists>a. check_product self q = Inr a)
        \<and> check_product self p = Inl e \<longrightarrow> check_tpv_by_product self = Inl e)
   \<and> (unique_products (db self) = Inr products \<and> p \<in> set products
        \<and> check_product self p = Inl e \<longrightarrow> (\<exists>e'. check_tpv_by_product self = Inl e'))
   \<and> (check_total_tpv self = Inl e \<longrightarrow> run_all_checks self = Inl e)
   \<and> (check_total_tpv self = Inr t \<and> check_transactions self = Inl e \<longrightarrow>
        run_all_checks self = Inl e)
   \<and> (check_total_tpv self = Inr t \<and> check_transactions self = Inr x
        \<and> check_tpv_by_product self = Inl e \<longrightarrow> run_all_checks self = Inl e)
   \<and> (run_all_checks self = Inl e \<longrightarrow> get_alerts_for_display self = Inl e)"
proof -
  have first: "unique_products (db self) = Inr (pre @ p # post)
        \<and> (\<forall>q \<in> set pre. \<exists>a. check_product self q = Inr a)
        \<and> check_product self p = Inl e \<longrightarrow> check_tpv_by_product self = Inl e"
    using check_products_first_failure [of pre self p e post]
    by (simp add: check_tpv_by_product_def)
  have some: "unique_products (db self) = Inr products \<and> p \<in> set products
        \<and> check_product self p = Inl e \<longrightarrow> (\<exists>e'. check_tpv_by_product self = Inl e')"
    using check_products_fails [of p products self e]
    by (auto simp add: check_tpv_by_product_def)
  have queries: "daily_tpv (db self) = Inl e \<longrightarrow> check_total_tpv self = Inl e"
    "daily_txns (db self) = Inl e \<longrightarrow> check_transactions self = Inl e"
    "product_tpv (db self) p = Inl e \<longrightarrow> check_product self p = Inl e"
    "unique_products (db self) = Inl e \<longrightarrow> check_tpv_by_product self = Inl e"
    by (simp_all add: check_total_tpv_def check_transactions_def check_product_def
      check_tpv_by_product_def)
  have run: "check_total_tpv self = Inl e \<longrightarrow> run_all_checks self = Inl e"
    "check_total_tpv self = Inr t \<and> check_transactions self = Inl e \<longrightarrow>
        run_all_checks self = Inl e"
    "check_total_tpv self = Inr t \<and> check_transactions self = Inr x
        \<and> check_tpv_by_product self = Inl e \<longrightarrow> run_all_checks self = Inl e"
    "run_all_checks self = Inl e \<longrightarrow> get_alerts_for_display self = Inl e"
    by (simp_all add: run_all_checks_def display_propagates)
  from queries first some run show ?thesis by (intro conjI)
qed

lemma failing_total: "\<exists>a. check_total_tpv (default_detector failing_db) = Inr a"
  by (rule check_total_tpv_succeeds [where rows = "[(1, 100), (2, 200), (3, 300)]"])
    (simp_all add: default_detector_def failing_db_def example_db_def)

lemma failing_transactions: "\<exists>a. check_transactions (default_detector failing_db) = Inr a"
  by (rule check_transactions_succeeds [where rows = "[(1, 10), (2, 20), (3, 30)]"])
    (simp_all add: default_detector_def failing_db_def example_db_def)

lemma failing_pix: "\<exists>a. check_product (default_detector failing_db) ''pix'' = Inr a"
  by (rule check_product_succeeds [where rows = "[(1, 60), (2, 120), (3, 180)]"])
    (simp_all add: default_detector_def failing_db_def example_db_def)

lemma failing_pos:
  "check_product (default_detector failing_db) ''pos'' = Inl DataAccessError"
  by (simp add: check_product_def default_detector_def failing_db_def example_db_def)

lemma failing_products:
  "unique_products (db (default_detector failing_db)) = Inr [''pix'', ''pos'']"
  by (simp add: default_detector_def failing_db_def example_db_def)

theorem failed_check_aborts_run_witness:
  "daily_tpv (db (default_detector (example_db\<lparr>daily_tpv := Inl DataAccessError\<rparr>)))
     = Inl DataAccessError
   \<and> check_total_tpv (default_detector (example_db\<lparr>daily_tpv := Inl DataAccessError\<rparr>))
     = Inl DataAccessError
   \<and> run_all_checks (default_detector (example_db\<lparr>daily_tpv := Inl DataAccessError\<rparr>))
     = Inl DataAccessError
   \<and> daily_txns (db (default_detector (example_db\<lparr>daily_txns := Inl DataAccessError\<rparr>)))
     = Inl DataAccessError
   \<and> check_transactions (default_detector (example_db\<lparr>daily_txns := Inl DataAccessError\<rparr>))
     = Inl DataAccessError
   \<and> run_all_checks (default_detector (example_db\<lparr>daily_txns := Inl DataAccessError\<rparr>))
     = Inl DataAccessError
   \<and> unique_products
       (db (default_detector (example_db\<lparr>unique_products := Inl DataAccessError\<rparr>)))
     = Inl DataAccessError
   \<and> run_all_checks
       (default_detector (example_db\<lparr>unique_products := Inl DataAccessError\<rparr>))
     = Inl DataAccessError
   \<and> unique_products (db (default_detector failing_db)) = Inr ([''pix''] @ ''pos'' # [])
   \<and> ''pos'' \<in> set [''pix'', ''pos'']
   \<and> product_tpv (db (default_detector failing_db)) ''pos'' = Inl DataAccessError
   \<and> check_product (default_detector failing_db) ''pos'' = Inl DataAccessError
   \<and> check_tpv_by_product (default_detector failing_db) = Inl DataAccessError
   \<and> run_all_checks (default_detector failing_db) = Inl DataAccessError
   \<and> get_alerts_for_display (default_detector failing_db) = Inl DataAccessError
   \<and> unique_products (db (default_detector two_failures_db)) = Inr ([] @ ''pix'' # [''pos''])
   \<and> check_product (default_detector two_failures_db) ''pix'' = Inl DataAccessError
   \<and> check_product (default_detector two_failures_db) ''pos'' = Inl IndexError
   \<and> check_tpv_by_product (default_detector two_failures_db) = Inl DataAccessError
   \<and> run_all_checks (default_detector two_failures_db) = Inl DataAccessError"
proof -
  let ?D1 = "default_detector (example_db\<lparr>daily_tpv := Inl DataAccessError\<rparr>)"
  let ?D2 = "default_detector (example_db\<lparr>daily_txns := Inl DataAccessError\<rparr>)"
  let ?D3 = "default_detector failing_db"
  let ?D4 = "default_detector (example_db\<lparr>unique_products := Inl DataAccessError\<rparr>)"
  let ?D5 = "default_detector two_failures_db"
  note T = failed_check_aborts_run
  txt \<open>The query for total TPV fails.\<close>
  have q1: "daily_tpv (db ?D1) = Inl DataAccessError"
    by (simp add: default_detector_def)
  from T [where self = ?D1 and e = DataAccessError, THEN conjunct1] q1
  have c1: "check_total_tpv ?D1 = Inl DataAccessError" by simp
  from T [of ?D1 DataAccessError "''pos''" "[]" "[]" "[]" undefined undefined] c1
  have r1: "run_all_checks ?D1 = Inl DataAccessError" by simp
  txt \<open>The query for the transaction count fails.\<close>
  have q2: "daily_txns (db ?D2) = Inl DataAccessError"
    by (simp add: default_detector_def)
  obtain t2 where t2: "check_total_tpv ?D2 = Inr t2"
    using check_total_tpv_succeeds [of ?D2 "[(1, 100), (2, 200), (3, 300)]"]
    by (auto simp add: default_detector_def example_db_def)
  from T [of ?D2 DataAccessError "''pos''" "[]" "[]" "[]" t2 undefined] q2
  have c2: "check_transactions ?D2 = Inl DataAccessError" by simp
  from T [of ?D2 DataAccessError "''pos''" "[]" "[]" "[]" t2 undefined] c2 t2
  have r2: "run_all_checks ?D2 = Inl DataAccessError" by simp
  txt \<open>The query for the list of products fails.\<close>
  have q4: "unique_products (db ?D4) = Inl DataAccessError"
    by (simp add: default_detector_def)
  obtain t4 where t4: "check_total_tpv ?D4 = Inr t4"
    using check_total_tpv_succeeds [of ?D4 "[(1, 100), (2, 200), (3, 300)]"]
    by (auto simp add: default_detector_def example_db_def)
  obtain x4 where x4: "check_transactions ?D4 = Inr x4"
    using check_transactions_succeeds [of ?D4 "[(1, 10), (2, 20), (3, 30)]"]
    by (auto simp add: default_detector_def example_db_def)
  from T [of ?D4 DataAccessError "''pos''" "[]" "[]" "[]" t4 x4] q4
  have c4: "check_tpv_by_product ?D4 = Inl DataAccessError" by simp
  from T [of ?D4 DataAccessError "''pos''" "[]" "[]" "[]" t4 x4] c4 t4 x4
  have r4: "run_all_checks ?D4 = Inl DataAccessError" by simp
  txt \<open>The query for the second product fails.\<close>
  obtain t3 where t3: "check_total_tpv ?D3 = Inr t3" using failing_total ..
  obtain x3 where x3: "check_transactions ?D3 = Inr x3" using failing_transactions ..
  have u3: "unique_products (db ?D3) = Inr ([''pix''] @ ''pos'' # [])"
    using failing_products by simp
  have p3: "product_tpv (db ?D3) ''pos'' = Inl DataAccessError"
    by (simp add: default_detector_def failing_db_def)
  have pre3: "\<forall>q \<in> set [''pix'']. \<exists>a. check_product ?D3 q = Inr a"
    using failing_pix by simp
  note T3 = T [of ?D3 DataAccessError "''pos''" "[''pix'']" "[]" "[''pix'', ''pos'']" t3 x3]
  from T3 p3 have c3: "check_product ?D3 ''pos'' = Inl DataAccessError" by simp
  from T3 u3 pre3 c3 have b3: "check_tpv_by_product ?D3 = Inl DataAccessError" by simp
  from T3 t3 x3 b3 have r3: "run_all_checks ?D3 = Inl DataAccessError" by simp
  from T3 r3 have g3: "get_alerts_for_display ?D3 = Inl DataAccessError" by simp
  txt \<open>The first product fails on its query, the second on its empty series.\<close>
  obtain t5 where t5: "check_total_tpv ?D5 = Inr t5"
    using check_total_tpv_succeeds [of ?D5 "[(1, 100), (2, 200), (3, 300)]"]
    by (auto simp add: default_detector_def two_failures_db_def example_db_def)
  obtain x5 where x5: "check_transactions ?D5 = Inr x5"
    using check_transactions_succeeds [of ?D5 "[(1, 10), (2, 20), (3, 30)]"]
    by (auto simp add: default_detector_def two_failures_db_def example_db_def)
  have u5: "unique_products (db ?D5) = Inr ([] @ ''pix'' # [''pos''])"
    by (simp add: default_detector_def two_failures_db_def example_db_def)
  have p5: "product_tpv (db ?D5) ''pix'' = Inl DataAccessError"
    by (simp add: default_detector_def two_failures_db_def)
  have e5: "check_product ?D5 ''pos'' = Inl IndexError"
    by (simp add: check_product_def default_detector_def two_failures_db_def
      evaluate_empty)
  note T5 = T [of ?D5 DataAccessError "''pix''" "[]" "[''pos'']" "[''pix'', ''pos'']" t5 x5]
  from T5 p5 have c5: "check_product ?D5 ''pix'' = Inl DataAccessError" by simp
  from T5 u5 c5 have b5: "check_tpv_by_product ?D5 = Inl DataAccessError" by simp
  from T5 t5 x5 b5 have r5: "run_all_checks ?D5 = Inl DataAccessError" by simp
  from q1 c1 r1 q2 c2 r2 q4 r4 u3 p3 c3 b3 r3 g3 u5 c5 e5 b5 r5 show ?thesis
    by (intro conjI) simp_all
qed

text \<open>The query for the product pos fails while the two totals and the product pix can be
  evaluated: the run returns the error and nothing else.\<close>

theorem failed_product_query_aborts_all:
  "\<not> isl (check_total_tpv (default_detector failing_db))
   \<and> \<not> isl (check_transactions (default_detector failing_db))
   \<and> \<not> isl (check_product (default_detector failing_db) ''pix'')
   \<and> check_product (default_detector failing_db) ''pos'' = Inl DataAccessError
   \<and> run_all_checks (default_detector failing_db) = Inl DataAccessError
   \<and> get_alerts_for_display (default_detector failing_db) = Inl DataAccessError"
proof -
  let ?D = "default_detector failing_db"
  obtain t where t: "check_total_tpv ?D = Inr t" using failing_total by blast
  obtain x where x: "check_transactions ?D = Inr x" using failing_transactions by blast
  obtain a where a: "check_product ?D ''pix'' = Inr a" using failing_pix by blast
  have p: "check_tpv_by_product ?D = Inl DataAccessError"
    by (simp add: check_tpv_by_product_def failing_products a failing_pos)
  have r: "run_all_checks ?D = Inl DataAccessError"
    by (simp add: run_all_checks_def t x p)
  from t x a failing_pos r display_propagates [OF r] show ?thesis by simp
qed

subsection \<open>Messages\<close>

lemma tpv_alert_message:
  "check_total_tpv self = Inr a \<Longrightarrow>
   metric a = ''tpv'' \<and> dimension a = ''total''
   \<and> message a = format_message ''tpv'' ''total'' (z_score a) (change_pct a)
        (current_value a) (expected_value a)"
  by (auto simp add: check_total_tpv_def split: sum.splits)

lemma product_alert_message:
  "check_product self p = Inr a \<Longrightarrow>
   metric a = ''tpv'' \<and> dimension a = p
   \<and> message a = format_message ''tpv'' p (z_score a) (change_pct a)
        (current_value a) (expected_value a)"
  by (auto simp add: check_product_def split: sum.splits)

lemma products_alert_messages:
  "check_products self ps = Inr as \<Longrightarrow> a \<in> set as \<Longrightarrow>
   message a = format_message ''tpv'' (dimension a) (z_score a) (change_pct a)
        (current_value a) (expected_value a)"
proof (induction ps arbitrary: as)
  case Nil
  then show ?case by simp
next
  case (Cons p ps)
  from Cons.prems(1) obtain b bs where
    b: "check_product self p = Inr b" and bs: "check_products self ps = Inr bs"
    and as: "as = b # bs"
    by (auto split: sum.splits)
  show ?case
  proof (cases "a = b")
    case True
    with product_alert_message [OF b] show ?thesis by simp
  next
    case False
    with Cons.prems(2) as have "a \<in> set bs" by simp
    with Cons.IH [OF bs] show ?thesis .
  qed
qed

lemma transactions_alert_message:
  "check_transactions self = Inr a \<Longrightarrow>
   metric a = ''transactions'' \<and> dimension a = ''total''
   \<and> message a = transactions_message (z_score a) (change_pct a)
        (current_value a) (expected_value a)"
  by (auto simp add: check_transactions_def split: sum.splits)

text \<open>
  C7, as the code has it. \<open>_format_message\<close> follows the formation rules: the label is
  Total METRIC for the dimension total and METRIC for DIMENSION otherwise, both in upper
  case; the direction is dropped for a Z-score below 0 and spiked otherwise; the percentage
  change is rendered without its sign to one decimal, the Z-score to two, the current and
  the expected value as currency with two decimals. The alerts on total TPV and on each
  product carry that message. The alert on the transaction count carries a message of its
  own: the label Transaction count, the same direction, percentage and Z-score, and both
  values as whole numbers without a currency sign.
\<close>

theorem message_formation:
  "format_message m d z chg cur ex =
     (if d = ''total'' then ''Total '' @ upper m else upper m @ '' for '' @ upper d)
     @ '' '' @ (if flt z 0 then ''dropped'' else ''spiked'') @ '' ''
     @ format_f False 1 (fabs chg) @ ''% (Z-score: '' @ format_f False 2 z
     @ ''). Current: R$ '' @ format_f True 2 cur
     @ '', Expected: R$ '' @ format_f True 2 ex
   \<and> (check_total_tpv self = Inr a \<longrightarrow>
        message a = format_message ''tpv'' ''total'' (z_score a) (change_pct a)
          (current_value a) (expected_value a))
   \<and> (check_tpv_by_product self = Inr as \<and> a \<in> set as \<longrightarrow>
        message a = format_message ''tpv'' (dimension a) (z_score a) (change_pct a)
          (current_value a) (expected_value a))
   \<and> (check_transactions self = Inr a \<longrightarrow>
        message a =
          ''Transaction count '' @ (if flt (z_score a) 0 then ''dropped'' else ''spiked'')
          @ '' '' @ format_f False 1 (fabs (change_pct a)) @ ''% (Z-score: ''
          @ format_f False 2 (z_score a) @ ''). Current: ''
          @ format_f True 0 (current_value a)
          @ '', Expected: '' @ format_f True 0 (expected_value a))"
proof (intro conjI impI)
  show "format_message m d z chg cur ex =
     (if d = ''total'' then ''Total '' @ upper m else upper m @ '' for '' @ upper d)
     @ '' '' @ (if flt z 0 then ''dropped'' else ''spiked'') @ '' ''
     @ format_f False 1 (fabs chg) @ ''% (Z-score: '' @ format_f False 2 z
     @ ''). Current: R$ '' @ format_f True 2 cur
     @ '', Expected: R$ '' @ format_f True 2 ex"
    by (simp add: format_message_def Let_def)
next
  assume "check_total_tpv self = Inr a"
  then show "message a = format_message ''tpv'' ''total'' (z_score a) (change_pct a)
          (current_value a) (expected_value a)"
    using tpv_alert_message by blast
next
  assume h: "check_tpv_by_product self = Inr as \<and> a \<in> set as"
  then obtain ps where ps: "check_products self ps = Inr as"
    by (auto simp add: check_tpv_by_product_def split: sum.splits)
  from products_alert_messages [OF ps, of a] h
  show "message a = format_message ''tpv'' (dimension a) (z_score a) (change_pct a)
          (current_value a) (expected_value a)"
    by simp
next
  assume "check_transactions self = Inr a"
  from transactions_alert_message [OF this]
  show "message a =
          ''Transaction count '' @ (if flt (z_score a) 0 then ''dropped'' else ''spiked'')
          @ '' '' @ format_f False 1 (fabs (change_pct a)) @ ''% (Z-score: ''
          @ format_f False 2 (z_score a) @ ''). Current: ''
          @ format_f True 0 (current_value a)
          @ '', Expected: '' @ format_f True 0 (expected_value a)"
    by (simp add: transactions_message_def)
qed

theorem message_formation_witness:
  "\<exists>a as b c.
     check_total_tpv rich_detector = Inr a
     \<and> format_message ''tpv'' ''total'' (z_score a) (change_pct a) (current_value a)
          (expected_value a) =
        ''Total TPV spiked 116.7% (Z-score: 1.17). Current: R$ 13.00, Expected: R$ 6.00''
     \<and> check_tpv_by_product rich_detector = Inr as \<and> b \<in> set as
     \<and> format_message ''tpv'' (dimension b) (z_score b) (change_pct b) (current_value b)
          (expected_value b) =
        ''TPV for POS dropped 66.7% (Z-score: -0.67). Current: R$ 1.00, Expected: R$ 3.00''
     \<and> check_transactions rich_detector = Inr c
     \<and> ''Transaction count '' @ (if flt (z_score c) 0 then ''dropped'' else ''spiked'')
          @ '' '' @ format_f False 1 (fabs (change_pct c)) @ ''% (Z-score: ''
          @ format_f False 2 (z_score c) @ ''). Current: ''
          @ format_f True 0 (current_value c)
          @ '', Expected: '' @ format_f True 0 (expected_value c) =
        ''Transaction count spiked 220.0% (Z-score: 2.20). Current: 96, Expected: 30''"
proof -
  obtain a where a: "check_total_tpv rich_detector = Inr a"
    "message a =
      ''Total TPV spiked 116.7% (Z-score: 1.17). Current: R$ 13.00, Expected: R$ 6.00''"
    using rich_check_total_tpv by simp
  obtain as where as0: "check_tpv_by_product rich_detector = Inr as"
    "last as \<in> set as"
    "message (last as) =
      ''TPV for POS dropped 66.7% (Z-score: -0.67). Current: R$ 1.00, Expected: R$ 3.00''"
    using rich_by_product by simp
  define b where "b = last as"
  have as: "check_tpv_by_product rich_detector = Inr as" "b \<in> set as"
    "message b =
      ''TPV for POS dropped 66.7% (Z-score: -0.67). Current: R$ 1.00, Expected: R$ 3.00''"
    using as0 by (simp_all add: b_def)
  obtain c where c: "check_transactions rich_detector = Inr c"
    "message c =
      ''Transaction count spiked 220.0% (Z-score: 2.20). Current: 96, Expected: 30''"
    using rich_check_transactions by simp
  note t = message_formation [of "''tpv''" "''total''" "Fin 0" "Fin 0" "Fin 0" "Fin 0"
    rich_detector]
  from t [of a as] a have 1: "format_message ''tpv'' ''total'' (z_score a) (change_pct a)
      (current_value a) (expected_value a) =
      ''Total TPV spiked 116.7% (Z-score: 1.17). Current: R$ 13.00, Expected: R$ 6.00''"
    by simp
  from t [of b as] as have 2: "format_message ''tpv'' (dimension b) (z_score b)
      (change_pct b) (current_value b) (expected_value b) =
      ''TPV for POS dropped 66.7% (Z-score: -0.67). Current: R$ 1.00, Expected: R$ 3.00''"
    by simp
  from t [of c as] c have 3:
    "''Transaction count '' @ (if flt (z_score c) 0 then ''dropped'' else ''spiked'')
          @ '' '' @ format_f False 1 (fabs (change_pct c)) @ ''% (Z-score: ''
          @ format_f False 2 (z_score c) @ ''). Current: ''
          @ format_f True 0 (current_value c)
          @ '', Expected: '' @ format_f True 0 (expected_value c) =
        ''Transaction count spiked 220.0% (Z-score: 2.20). Current: 96, Expected: 30''"
    by simp
  from a(1) as(1,2) c(1) 1 2 3 show ?thesis by blast
qed

text \<open>The alert on the transaction count of the worked example, beside the message that
  the formation rules give for the same values.\<close>

theorem transactions_message_differs:
  "check_transactions rich_detector =
     Inr \<lparr>metric = ''transactions'', dimension = ''total'', current_value = Fin 96,
          expected_value = Fin 30, z_score = Fin (11 / 5), severity = WARNING,
          change_pct = Fin 220,
          message = ''Transaction count spiked 220.0% (Z-score: 2.20). Current: 96, Expected: 30''\<rparr>
   \<and> format_message ''transactions'' ''total'' (Fin (11 / 5)) (Fin 220) (Fin 96) (Fin 30) =
       ''Total TRANSACTIONS spiked 220.0% (Z-score: 2.20). Current: R$ 96.00, Expected: R$ 30.00''"
proof -
  have "format_message ''transactions'' ''total'' (Fin (11 / 5)) (Fin 220) (Fin 96) (Fin 30)
      = ''Total TRANSACTIONS spiked 220.0% (Z-score: 2.20). Current: R$ 96.00, Expected: R$ 30.00''"
    by (simp add: message_defs)
  with rich_check_transactions show ?thesis by simp
qed

subsection \<open>Display order\<close>

lemma severity_rank_to_display:
  "severity_rank (to_display a) =
     Inr (case severity a of CRITICAL \<Rightarrow> 0 | WARNING \<Rightarrow> 1 | NORMAL \<Rightarrow> 2)"
  by (cases "severity a") (simp_all add: severity_rank_def to_display_def severity_order_def)

lemma sort_keys_Inr:
  "sort_keys ds = Inr ks \<Longrightarrow>
   map snd ks = ds \<and> (\<forall>p \<in> set ks. severity_rank (snd p) = Inr (fst p))"
proof (induction ds arbitrary: ks)
  case Nil
  then show ?case by simp
next
  case (Cons d ds)
  then show ?case by (auto split: sum.splits)
qed

lemma sort_keys_succeeds:
  "\<exists>ks. sort_keys (map to_display as) = Inr ks"
  by (induction as) (auto simp add: severity_rank_to_display)

text \<open>Sorting pairs of key and element by the key, then dropping the keys.\<close>

lemma keyed_sort_adjacent:
  assumes "\<forall>p \<in> set ks. severity_rank (snd p) = Inr (fst p)"
    and "Suc i < length ks"
  shows "\<exists>ka kb. severity_rank (map snd (sort_key fst ks) ! i) = Inr ka
           \<and> severity_rank (map snd (sort_key fst ks) ! Suc i) = Inr kb \<and> ka \<le> kb"
proof -
  let ?s = "sort_key fst ks"
  have len: "Suc i < length ?s" "i < length ?s" using assms(2) by simp_all
  have mem: "?s ! i \<in> set ks" "?s ! Suc i \<in> set ks"
    using len by (metis nth_mem set_sort)+
  have "sorted (map fst ?s)" by (rule sorted_sort_key)
  then have "map fst ?s ! i \<le> map fst ?s ! Suc i"
    using len by (simp add: sorted_iff_nth_Suc del: sorted_sort_key)
  then have le: "fst (?s ! i) \<le> fst (?s ! Suc i)" using len by simp
  from mem assms(1) have "severity_rank (snd (?s ! i)) = Inr (fst (?s ! i))"
    "severity_rank (snd (?s ! Suc i)) = Inr (fst (?s ! Suc i))" by blast+
  with le len show ?thesis by simp
qed

lemma keyed_sort_stable:
  assumes "\<forall>p \<in> set ks. severity_rank (snd p) = Inr (fst p)"
  shows "filter (\<lambda>x. severity_rank x = Inr k) (map snd (sort_key fst ks)) =
         filter (\<lambda>x. severity_rank x = Inr k) (map snd ks)"
proof -
  have "filter (\<lambda>x. severity_rank x = Inr k) (map snd (sort_key fst ks)) =
        map snd (filter (\<lambda>p. severity_rank (snd p) = Inr k) (sort_key fst ks))"
    by (simp add: filter_map comp_def)
  also have "filter (\<lambda>p. severity_rank (snd p) = Inr k) (sort_key fst ks) =
        filter (\<lambda>p. fst p = k) (sort_key fst ks)"
    using assms by (intro filter_cong) auto
  also have "\<dots> = filter (\<lambda>p. fst p = k) ks" by (rule sort_key_stable)
  also have "\<dots> = filter (\<lambda>p. severity_rank (snd p) = Inr k) ks"
    using assms by (intro filter_cong) auto
  also have "map snd \<dots> = filter (\<lambda>x. severity_rank x = Inr k) (map snd ks)"
    by (simp add: filter_map comp_def)
  finally show ?thesis .
qed

text \<open>
  C6. The list that \<open>get_alerts_for_display\<close> returns is ordered by the rank of the
  severity, critical 0, warning 1, normal 2: each element has a rank not above the rank of
  its successor. Among the records of one rank the order is the one of the evaluation:
  total TPV, total transactions, then the products in the order the database lists them.
  The function returns whenever the run of all checks does.
\<close>

theorem display_sorted_by_severity_stable:
  "(get_alerts_for_display self = Inr out \<longrightarrow>
      (\<forall>i. Suc i < length out \<longrightarrow>
         (\<exists>ka kb. severity_rank (out ! i) = Inr ka
            \<and> severity_rank (out ! Suc i) = Inr kb \<and> ka \<le> kb))
      \<and> (\<exists>r. run_all_checks self = Inr r
            \<and> (\<forall>k. filter (\<lambda>x. severity_rank x = Inr k) out =
                     filter (\<lambda>x. severity_rank x = Inr k) (map to_display (all_alerts r)))
            \<and> length out = length (all_alerts r)
            \<and> all_alerts r = total_tpv r # transactions r # by_product r
            \<and> (\<exists>products. unique_products (db self) = Inr products
                  \<and> map dimension (by_product r) = products)))
   \<and> (run_all_checks self = Inr r \<longrightarrow> (\<exists>out. get_alerts_for_display self = Inr out))
   \<and> severity_rank (to_display a) =
       Inr (case severity a of CRITICAL \<Rightarrow> 0 | WARNING \<Rightarrow> 1 | NORMAL \<Rightarrow> 2)"
proof (intro conjI impI)
  assume g: "get_alerts_for_display self = Inr out"
  then obtain r ks where r: "run_all_checks self = Inr r"
    and ks: "sort_keys (map to_display (all_alerts r)) = Inr ks"
    and out: "out = map snd (sort_key fst ks)"
    by (auto simp add: get_alerts_for_display_def split: sum.splits)
  from sort_keys_Inr [OF ks] have m: "map snd ks = map to_display (all_alerts r)"
    and k: "\<forall>p \<in> set ks. severity_rank (snd p) = Inr (fst p)" by simp_all
  have len: "length ks = length (all_alerts r)" using m by (metis length_map)
  show "\<forall>i. Suc i < length out \<longrightarrow>
         (\<exists>ka kb. severity_rank (out ! i) = Inr ka
            \<and> severity_rank (out ! Suc i) = Inr kb \<and> ka \<le> kb)"
    unfolding out using keyed_sort_adjacent [OF k] by simp
  from run_all_checks_Inr [OF r] obtain ps where
    c: "check_tpv_by_product self = Inr ps" and bp: "by_product r = ps" by blast
  from c obtain products where
    u: "unique_products (db self) = Inr products" and
    p: "check_products self products = Inr ps"
    by (auto simp add: check_tpv_by_product_def split: sum.splits)
  have d: "map dimension (by_product r) = products"
    using p bp check_products_dimensions by blast
  have st: "\<forall>k. filter (\<lambda>x. severity_rank x = Inr k) out =
                filter (\<lambda>x. severity_rank x = Inr k) (map to_display (all_alerts r))"
    unfolding out using keyed_sort_stable [OF k] m by simp
  show "\<exists>r. run_all_checks self = Inr r
            \<and> (\<forall>k. filter (\<lambda>x. severity_rank x = Inr k) out =
                     filter (\<lambda>x. severity_rank x = Inr k) (map to_display (all_alerts r)))
            \<and> length out = length (all_alerts r)
            \<and> all_alerts r = total_tpv r # transactions r # by_product r
            \<and> (\<exists>products. unique_products (db self) = Inr products
                  \<and> map dimension (by_product r) = products)"
    using r st len u d by (auto simp add: out all_alerts_def)
next
  assume "run_all_checks self = Inr r"
  then show "\<exists>out. get_alerts_for_display self = Inr out"
    using sort_keys_succeeds [of "all_alerts r"]
    by (auto simp add: get_alerts_for_display_def)
next
  show "severity_rank (to_display a) =
       Inr (case severity a of CRITICAL \<Rightarrow> 0 | WARNING \<Rightarrow> 1 | NORMAL \<Rightarrow> 2)"
    by (rule severity_rank_to_display)
qed

lemma sort_keys_to_display:
  "sort_keys (map to_display as) =
     Inr (map (\<lambda>a. (case severity a of CRITICAL \<Rightarrow> 0 | WARNING \<Rightarrow> 1 | NORMAL \<Rightarrow> 2,
                     to_display a)) as)"
  by (induction as) (simp_all add: severity_rank_to_display)

lemma display_of_run:
  "run_all_checks self = Inr r \<Longrightarrow>
   get_alerts_for_display self =
     Inr (map snd (sort_key fst
       (map (\<lambda>a. (case severity a of CRITICAL \<Rightarrow> 0 :: nat | WARNING \<Rightarrow> 1 | NORMAL \<Rightarrow> 2,
                   to_display a)) (all_alerts r))))"
  by (simp add: get_alerts_for_display_def sort_keys_to_display)

lemma rich_run_alerts:
  "\<exists>r. run_all_checks rich_detector = Inr r
     \<and> map metric (all_alerts r) = [''tpv'', ''transactions'', ''tpv'', ''tpv'']
     \<and> map dimension (all_alerts r) = [''total'', ''total'', ''pix'', ''pos'']
     \<and> map severity (all_alerts r) = [NORMAL, WARNING, CRITICAL, NORMAL]"
  by (simp add: run_all_checks_def rich_check_total_tpv rich_check_transactions
      rich_by_product Let_def all_alerts_def)

lemma rich_display:
  "\<exists>out. get_alerts_for_display rich_detector = Inr out
     \<and> map d_metric out = [''tpv'', ''transactions'', ''tpv'', ''tpv'']
     \<and> map d_dimension out = [''pix'', ''total'', ''total'', ''pos'']
     \<and> map d_severity out = [''critical'', ''warning'', ''normal'', ''normal'']"
proof -
  from rich_run_alerts obtain r where r: "run_all_checks rich_detector = Inr r"
    and m: "map metric (all_alerts r) = [''tpv'', ''transactions'', ''tpv'', ''tpv'']"
    and d: "map dimension (all_alerts r) = [''total'', ''total'', ''pix'', ''pos'']"
    and s: "map severity (all_alerts r) = [NORMAL, WARNING, CRITICAL, NORMAL]"
    by (elim exE conjE)
  from s obtain a1 a2 a3 a4 where as: "all_alerts r = [a1, a2, a3, a4]"
    and sv: "severity a1 = NORMAL" "severity a2 = WARNING" "severity a3 = CRITICAL"
      "severity a4 = NORMAL"
    by (auto simp add: map_eq_Cons_conv)
  have "get_alerts_for_display rich_detector =
      Inr [to_display a3, to_display a2, to_display a1, to_display a4]"
    unfolding display_of_run [OF r] as by (simp add: sv sort_key_def)
  then show ?thesis
    using m d sv unfolding as by (simp add: to_display_def)
qed

theorem display_sorted_by_severity_stable_witness:
  "\<exists>out. get_alerts_for_display rich_detector = Inr out
     \<and> Suc 2 < length out
     \<and> map d_metric out = [''tpv'', ''transactions'', ''tpv'', ''tpv'']
     \<and> map d_dimension out = [''pix'', ''total'', ''total'', ''pos'']
     \<and> map d_severity out = [''critical'', ''warning'', ''normal'', ''normal'']
     \<and> (\<exists>ka kb. severity_rank (out ! 2) = Inr ka \<and> severity_rank (out ! Suc 2) = Inr kb
           \<and> ka \<le> kb)
     \<and> (\<exists>r. run_all_checks rich_detector = Inr r
           \<and> filter (\<lambda>x. severity_rank x = Inr 2) out =
              filter (\<lambda>x. severity_rank x = Inr 2) (map to_display (all_alerts r))
           \<and> map dimension (by_product r) = [''pix'', ''pos''])"
proof -
  from rich_display obtain out where
    g: "get_alerts_for_display rich_detector = Inr out"
    and m: "map d_metric out = [''tpv'', ''transactions'', ''tpv'', ''tpv'']"
      "map d_dimension out = [''pix'', ''total'', ''total'', ''pos'']"
      "map d_severity out = [''critical'', ''warning'', ''normal'', ''normal'']"
    by (elim exE conjE)
  have "length (map d_metric out) = 4" unfolding m(1) by simp
  then have l: "Suc 2 < length out" by simp
  note t = display_sorted_by_severity_stable [of rich_detector out]
  note bc = t [THEN conjunct1, THEN mp, OF g]
  note adj = bc [THEN conjunct1, rule_format, OF l]
  from bc [THEN conjunct2]
  obtain r products where r: "run_all_checks rich_detector = Inr r"
    and f: "\<forall>k. filter (\<lambda>x. severity_rank x = Inr k) out =
                 filter (\<lambda>x. severity_rank x = Inr k) (map to_display (all_alerts r))"
    and u: "unique_products (db rich_detector) = Inr products"
    and p: "map dimension (by_product r) = products"
    by (elim exE conjE)
  from f have f2: "filter (\<lambda>x. severity_rank x = Inr 2) out =
       filter (\<lambda>x. severity_rank x = Inr 2) (map to_display (all_alerts r))" ..
  from u have "products = [''pix'', ''pos'']"
    by (simp add: rich_detector_def rich_db_def)
  with p have dims: "map dimension (by_product r) = [''pix'', ''pos'']" by simp
  from r f2 dims have "\<exists>r. run_all_checks rich_detector = Inr r
           \<and> filter (\<lambda>x. severity_rank x = Inr 2) out =
              filter (\<lambda>x. severity_rank x = Inr 2) (map to_display (all_alerts r))
           \<and> map dimension (by_product r) = [''pix'', ''pos'']"
    by (intro exI [of _ r] conjI)
  with g l m adj show ?thesis
    by (intro exI [of _ out] conjI)
qed

end
